theory Spec2Isabelle
  imports Main "HOL-Library.Word"
begin

section \<open>Data model\<close>

text \<open>
  The wallet's consensus-synchronisation code (package \<open>wallet\<close>): \<open>updateConfirmedSet\<close>,
  \<open>revertHistory\<close>, \<open>applyHistory\<close>, \<open>ProcessConsensusChange\<close> and
  \<open>ReceiveUpdatedUnconfirmedTransactions\<close>.

  Identifiers and addresses are 32-byte digests in the source; nothing here looks inside
  one, so a digest is a number. \<open>Currency\<close> is a non-negative big integer, block heights
  and timestamps are \<open>uint64\<close>.
\<close>

type_synonym hash = nat
type_synonym Currency = nat
type_synonym BlockHeight = "64 word"
type_synonym Timestamp = "64 word"
type_synonym UnlockConditions = nat

datatype DiffDirection = DiffApply | DiffRevert

datatype Specifier =
    SpecifierNone
  | SpecifierMinerPayout
  | SpecifierSiacoinInput
  | SpecifierSiacoinOutput
  | SpecifierSiafundInput
  | SpecifierSiafundOutput
  | SpecifierClaimOutput
  | SpecifierMinerFee

record SiacoinOutput =
  sco_Value :: Currency
  sco_UnlockHash :: hash

record SiafundOutput =
  sfo_Value :: Currency
  sfo_UnlockHash :: hash
  sfo_ClaimStart :: Currency

record SiacoinInput =
  sci_ParentID :: hash
  sci_UnlockConditions :: UnlockConditions

record SiafundInput =
  sfi_ParentID :: hash
  sfi_UnlockConditions :: UnlockConditions
  sfi_ClaimUnlockHash :: hash

text \<open>
  \<open>txn_Other\<close> stands for the parts of a transaction this code never reads (file
  contracts, storage proofs, arbitrary data, signatures).
\<close>

record Transaction =
  SiacoinInputs :: "SiacoinInput list"
  SiacoinOutputs :: "SiacoinOutput list"
  SiafundInputs :: "SiafundInput list"
  SiafundOutputs :: "SiafundOutput list"
  MinerFees :: "Currency list"
  txn_Other :: nat

record Block =
  ParentID :: hash
  Nonce :: nat
  Timestamp :: Timestamp
  MinerPayouts :: "SiacoinOutput list"
  Transactions :: "Transaction list"

record SiacoinOutputDiff =
  scod_Direction :: DiffDirection
  scod_ID :: hash
  scod_SiacoinOutput :: SiacoinOutput

record SiafundOutputDiff =
  sfod_Direction :: DiffDirection
  sfod_ID :: hash
  sfod_SiafundOutput :: SiafundOutput

record SiafundPoolDiff =
  spd_Direction :: DiffDirection
  Previous :: Currency
  Adjusted :: Currency

record ConsensusChange =
  RevertedBlocks :: "Block list"
  AppliedBlocks :: "Block list"
  SiacoinOutputDiffs :: "SiacoinOutputDiff list"
  SiafundOutputDiffs :: "SiafundOutputDiff list"
  SiafundPoolDiffs :: "SiafundPoolDiff list"
  Synced :: bool

record ProcessedInput =
  pi_FundType :: Specifier
  pi_WalletAddress :: bool
  pi_RelatedAddress :: hash
  pi_Value :: Currency

record ProcessedOutput =
  po_FundType :: Specifier
  po_MaturityHeight :: BlockHeight
  po_WalletAddress :: bool
  po_RelatedAddress :: hash
  po_Value :: Currency

record ProcessedTransaction =
  pt_Transaction :: Transaction
  TransactionID :: hash
  ConfirmationHeight :: BlockHeight
  ConfirmationTimestamp :: Timestamp
  Inputs :: "ProcessedInput list"
  Outputs :: "ProcessedOutput list"

text \<open>
  What the two files use from the packages \<open>build\<close> and \<open>types\<close> and from the Go
  runtime, none of which is part of them: the build flag, the maturity delay, the digest
  functions, the two \<open>Currency\<close> operations, and the capacity \<open>append\<close> gives a slice
  that has to grow (from its old capacity and the length needed).
\<close>

record env =
  DEBUG :: bool
  MaturityDelay :: BlockHeight
  Transaction_ID :: "Transaction \<Rightarrow> hash"
  Block_ID :: "Block \<Rightarrow> hash"
  Block_MinerPayoutID :: "Block \<Rightarrow> 64 word \<Rightarrow> hash"
  Transaction_SiacoinOutputID :: "Transaction \<Rightarrow> 64 word \<Rightarrow> hash"
  Transaction_SiafundOutputID :: "Transaction \<Rightarrow> 64 word \<Rightarrow> hash"
  UnlockConditions_UnlockHash :: "UnlockConditions \<Rightarrow> hash"
  Currency_Sub :: "Currency \<Rightarrow> Currency \<Rightarrow> Currency"
  Currency_Mul :: "Currency \<Rightarrow> Currency \<Rightarrow> Currency"
  growslice :: "nat \<Rightarrow> nat \<Rightarrow> nat"

text \<open>
  A Go slice is a view of a backing array: the array's address, a length and a capacity.
  \<open>processedTransactionMap\<close> holds pointers \<open>&w.processedTransactions[i]\<close>, that is, an
  array address and a slot. The wallet state therefore carries the backing arrays ever
  allocated for \<open>processedTransactions\<close> (\<open>arrays\<close>, by address and slot) and the next
  free address.

  \<open>keys\<close> is only ever tested for membership, so it is the set of its keys.
  \<open>tg_stopped\<close> says whether the wallet's ThreadGroup has been stopped.
\<close>

record slice =
  s_array :: nat
  s_len :: nat
  s_cap :: nat

type_synonym pointer = "nat \<times> nat"

record Wallet =
  keys :: "hash set"
  siacoinOutputs :: "hash \<rightharpoonup> SiacoinOutput"
  siafundOutputs :: "hash \<rightharpoonup> SiafundOutput"
  siafundPool :: Currency
  consensusSetHeight :: BlockHeight
  historicOutputs :: "hash \<rightharpoonup> Currency"
  historicClaimStarts :: "hash \<rightharpoonup> Currency"
  processedTransactions :: slice
  processedTransactionMap :: "hash \<rightharpoonup> pointer"
  unconfirmedProcessedTransactions :: "ProcessedTransaction list"
  arrays :: "nat \<Rightarrow> nat \<Rightarrow> ProcessedTransaction"
  next_array :: nat
  tg_stopped :: bool

datatype panic =
    AddingExistingOutput
  | DeletingNonexistingOutput
  | SliceBoundsOutOfRange

section \<open>Loops\<close>

text \<open>A \<open>for ... range\<close> loop whose body may panic: the first panic ends the loop.\<close>

fun forEach :: "('s \<Rightarrow> 'a \<Rightarrow> panic + 's) \<Rightarrow> 's \<Rightarrow> 'a list \<Rightarrow> panic + 's" where
  "forEach body s [] = Inr s"
| "forEach body s (x # xs) =
     (case body s x of Inl p \<Rightarrow> Inl p | Inr s' \<Rightarrow> forEach body s' xs)"

section \<open>updateConfirmedSet\<close>

definition siacoinOutputDiff :: "env \<Rightarrow> Wallet \<Rightarrow> SiacoinOutputDiff \<Rightarrow> panic + Wallet" where
  "siacoinOutputDiff E w diff =
     (if sco_UnlockHash (scod_SiacoinOutput diff) \<notin> keys w then Inr w
      else let exists = (siacoinOutputs w (scod_ID diff) \<noteq> None) in
        if scod_Direction diff = DiffApply then
          (if DEBUG E \<and> exists then Inl AddingExistingOutput
           else Inr (w\<lparr>siacoinOutputs :=
                         (siacoinOutputs w)(scod_ID diff \<mapsto> scod_SiacoinOutput diff)\<rparr>))
        else
          (if DEBUG E \<and> \<not> exists then Inl DeletingNonexistingOutput
           else Inr (w\<lparr>siacoinOutputs := (siacoinOutputs w)(scod_ID diff := None)\<rparr>)))"

definition siafundOutputDiff :: "env \<Rightarrow> Wallet \<Rightarrow> SiafundOutputDiff \<Rightarrow> panic + Wallet" where
  "siafundOutputDiff E w diff =
     (if sfo_UnlockHash (sfod_SiafundOutput diff) \<notin> keys w then Inr w
      else let exists = (siafundOutputs w (sfod_ID diff) \<noteq> None) in
        if sfod_Direction diff = DiffApply then
          (if DEBUG E \<and> exists then Inl AddingExistingOutput
           else Inr (w\<lparr>siafundOutputs :=
                         (siafundOutputs w)(sfod_ID diff \<mapsto> sfod_SiafundOutput diff)\<rparr>))
        else
          (if DEBUG E \<and> \<not> exists then Inl DeletingNonexistingOutput
           else Inr (w\<lparr>siafundOutputs := (siafundOutputs w)(sfod_ID diff := None)\<rparr>)))"

definition siafundPoolDiff :: "Wallet \<Rightarrow> SiafundPoolDiff \<Rightarrow> Wallet" where
  "siafundPoolDiff w diff =
     (if spd_Direction diff = DiffApply then w\<lparr>siafundPool := Adjusted diff\<rparr>
      else w\<lparr>siafundPool := Previous diff\<rparr>)"

definition updateConfirmedSet :: "env \<Rightarrow> Wallet \<Rightarrow> ConsensusChange \<Rightarrow> panic + Wallet" where
  "updateConfirmedSet E w cc =
     (case forEach (siacoinOutputDiff E) w (SiacoinOutputDiffs cc) of
        Inl p \<Rightarrow> Inl p
      | Inr w1 \<Rightarrow>
          (case forEach (siafundOutputDiff E) w1 (SiafundOutputDiffs cc) of
             Inl p \<Rightarrow> Inl p
           | Inr w2 \<Rightarrow> Inr (foldl siafundPoolDiff w2 (SiafundPoolDiffs cc))))"

section \<open>The confirmed-transaction log as a slice\<close>

definition zeroTransaction :: Transaction where
  "zeroTransaction =
     \<lparr>SiacoinInputs = [], SiacoinOutputs = [], SiafundInputs = [], SiafundOutputs = [],
      MinerFees = [], txn_Other = 0\<rparr>"

definition zeroProcessedTransaction :: ProcessedTransaction where
  "zeroProcessedTransaction =
     \<lparr>pt_Transaction = zeroTransaction, TransactionID = 0, ConfirmationHeight = 0,
      ConfirmationTimestamp = 0, Inputs = [], Outputs = []\<rparr>"

text \<open>
  \<open>w.processedTransactions = append(w.processedTransactions, pt)\<close>: with room left the
  element is written into the backing array in place; otherwise a new array is allocated,
  the elements are copied, and the slice moves to it. The old array stays as it was.
\<close>

definition append_pt :: "env \<Rightarrow> Wallet \<Rightarrow> ProcessedTransaction \<Rightarrow> Wallet" where
  "append_pt E w pt =
     (let s = processedTransactions w in
      if s_len s < s_cap s then
        w\<lparr>arrays := (arrays w)(s_array s := (arrays w (s_array s))(s_len s := pt)),
          processedTransactions := s\<lparr>s_len := s_len s + 1\<rparr>\<rparr>
      else
        let a = next_array w;
            c = max (s_len s + 1) (growslice E (s_cap s) (s_len s + 1)) in
        w\<lparr>arrays := (arrays w)(a := (\<lambda>i. if i < s_len s then arrays w (s_array s) i
                                         else if i = s_len s then pt
                                         else zeroProcessedTransaction)),
          next_array := a + 1,
          processedTransactions := \<lparr>s_array = a, s_len = s_len s + 1, s_cap = c\<rparr>\<rparr>)"

text \<open>
  \<open>w.processedTransactionMap[id] = &w.processedTransactions[len(w.processedTransactions)-1]\<close>
\<close>

definition index_last :: "Wallet \<Rightarrow> hash \<Rightarrow> Wallet" where
  "index_last w txid =
     (let s = processedTransactions w in
      w\<lparr>processedTransactionMap :=
          (processedTransactionMap w)(txid \<mapsto> (s_array s, s_len s - 1))\<rparr>)"

text \<open>
  \<open>w.processedTransactions = w.processedTransactions[:len(w.processedTransactions)-1]\<close>,
  for a slice that is not empty (on an empty one the slice expression panics).
\<close>

definition drop_last :: "Wallet \<Rightarrow> Wallet" where
  "drop_last w =
     w\<lparr>processedTransactions :=
         (processedTransactions w)\<lparr>s_len := s_len (processedTransactions w) - 1\<rparr>\<rparr>"

text \<open>\<open>w.processedTransactions[len(w.processedTransactions)-1]\<close>\<close>

definition last_pt :: "Wallet \<Rightarrow> ProcessedTransaction" where
  "last_pt w =
     arrays w (s_array (processedTransactions w)) (s_len (processedTransactions w) - 1)"

text \<open>The elements of the slice, in order.\<close>

definition log_entries :: "Wallet \<Rightarrow> ProcessedTransaction list" where
  "log_entries w =
     map (arrays w (s_array (processedTransactions w)))
       [0 ..< s_len (processedTransactions w)]"

section \<open>revertHistory\<close>

definition revertTransaction :: "env \<Rightarrow> Wallet \<Rightarrow> Transaction \<Rightarrow> Wallet" where
  "revertTransaction E w txn =
     (let txid = Transaction_ID E txn in
      if s_len (processedTransactions w) > 0 \<and> txid = TransactionID (last_pt w) then
        (drop_last w)\<lparr>processedTransactionMap := (processedTransactionMap w)(txid := None)\<rparr>
      else w)"

fun revertMinerPayouts :: "env \<Rightarrow> Block \<Rightarrow> Wallet \<Rightarrow> SiacoinOutput list \<Rightarrow> panic + Wallet" where
  "revertMinerPayouts E block w [] = Inr w"
| "revertMinerPayouts E block w (mp # mps) =
     (if sco_UnlockHash mp \<in> keys w then
        (if s_len (processedTransactions w) = 0 then Inl SliceBoundsOutOfRange
         else Inr ((drop_last w)\<lparr>processedTransactionMap :=
                                    (processedTransactionMap w)(Block_ID E block := None)\<rparr>))
      else revertMinerPayouts E block w mps)"

definition revertBlock :: "env \<Rightarrow> Wallet \<Rightarrow> Block \<Rightarrow> panic + Wallet" where
  "revertBlock E w block =
     (let w1 = foldl (revertTransaction E) w (rev (Transactions block)) in
      case revertMinerPayouts E block w1 (MinerPayouts block) of
        Inl p \<Rightarrow> Inl p
      | Inr w2 \<Rightarrow> Inr (w2\<lparr>consensusSetHeight := consensusSetHeight w2 - 1\<rparr>))"

definition revertHistory :: "env \<Rightarrow> Wallet \<Rightarrow> ConsensusChange \<Rightarrow> panic + Wallet" where
  "revertHistory E w cc = forEach (revertBlock E) w (RevertedBlocks cc)"

section \<open>applyHistory\<close>

text \<open>A Go map read of a key that is absent gives the zero value.\<close>

definition currencyAt :: "(hash \<rightharpoonup> Currency) \<Rightarrow> hash \<Rightarrow> Currency" where
  "currencyAt m k = (case m k of None \<Rightarrow> 0 | Some v \<Rightarrow> v)"

text \<open>A \<open>for i, x := range xs\<close> loop over the state \<open>s\<close>, from index \<open>i\<close> on.\<close>

fun forRange :: "(nat \<Rightarrow> 'a \<Rightarrow> 's \<Rightarrow> 's) \<Rightarrow> nat \<Rightarrow> 'a list \<Rightarrow> 's \<Rightarrow> 's" where
  "forRange body i [] s = s"
| "forRange body i (x # xs) s = forRange body (Suc i) xs (body i x s)"

text \<open>
  The loops that build one entry work on the flag \<open>relevant\<close>, the entry \<open>pt\<close> and the
  wallet.
\<close>

type_synonym building = "bool \<times> ProcessedTransaction \<times> Wallet"

definition minerPayoutStep :: "env \<Rightarrow> Block \<Rightarrow> nat \<Rightarrow> SiacoinOutput \<Rightarrow> building \<Rightarrow> building" where
  "minerPayoutStep E block i mp = (\<lambda>(relevant, minerPT, w).
     let exists = (sco_UnlockHash mp \<in> keys w) in
     (relevant \<or> exists,
      minerPT\<lparr>Outputs := Outputs minerPT @
        [\<lparr>po_FundType = SpecifierMinerPayout,
          po_MaturityHeight = consensusSetHeight w + MaturityDelay E,
          po_WalletAddress = exists,
          po_RelatedAddress = sco_UnlockHash mp,
          po_Value = sco_Value mp\<rparr>]\<rparr>,
      w\<lparr>historicOutputs :=
          (historicOutputs w)(Block_MinerPayoutID E block (of_nat i) \<mapsto> sco_Value mp)\<rparr>))"

definition siacoinInputStep :: "env \<Rightarrow> nat \<Rightarrow> SiacoinInput \<Rightarrow> building \<Rightarrow> building" where
  "siacoinInputStep E i sci = (\<lambda>(relevant, pt, w).
     let exists = (UnlockConditions_UnlockHash E (sci_UnlockConditions sci) \<in> keys w) in
     (relevant \<or> exists,
      pt\<lparr>Inputs := Inputs pt @
        [\<lparr>pi_FundType = SpecifierSiacoinInput,
          pi_WalletAddress = exists,
          pi_RelatedAddress = UnlockConditions_UnlockHash E (sci_UnlockConditions sci),
          pi_Value = currencyAt (historicOutputs w) (sci_ParentID sci)\<rparr>]\<rparr>,
      w))"

definition siacoinOutputStep :: "env \<Rightarrow> Transaction \<Rightarrow> nat \<Rightarrow> SiacoinOutput \<Rightarrow> building \<Rightarrow> building" where
  "siacoinOutputStep E txn i sco = (\<lambda>(relevant, pt, w).
     let exists = (sco_UnlockHash sco \<in> keys w) in
     (relevant \<or> exists,
      pt\<lparr>Outputs := Outputs pt @
        [\<lparr>po_FundType = SpecifierSiacoinOutput,
          po_MaturityHeight = consensusSetHeight w,
          po_WalletAddress = exists,
          po_RelatedAddress = sco_UnlockHash sco,
          po_Value = sco_Value sco\<rparr>]\<rparr>,
      w\<lparr>historicOutputs :=
          (historicOutputs w)(Transaction_SiacoinOutputID E txn (of_nat i) \<mapsto> sco_Value sco)\<rparr>))"

definition siafundInputStep :: "env \<Rightarrow> nat \<Rightarrow> SiafundInput \<Rightarrow> building \<Rightarrow> building" where
  "siafundInputStep E i sfi = (\<lambda>(relevant, pt, w).
     let exists = (UnlockConditions_UnlockHash E (sfi_UnlockConditions sfi) \<in> keys w);
         sfiValue = currencyAt (historicOutputs w) (sfi_ParentID sfi);
         pt1 = pt\<lparr>Inputs := Inputs pt @
           [\<lparr>pi_FundType = SpecifierSiafundInput,
             pi_WalletAddress = exists,
             pi_RelatedAddress = UnlockConditions_UnlockHash E (sfi_UnlockConditions sfi),
             pi_Value = sfiValue\<rparr>]\<rparr>;
         claimValue =
           Currency_Mul E
             (Currency_Sub E (siafundPool w)
                (currencyAt (historicClaimStarts w) (sfi_ParentID sfi)))
             sfiValue in
     (relevant \<or> exists,
      pt1\<lparr>Outputs := Outputs pt1 @
        [\<lparr>po_FundType = SpecifierClaimOutput,
          po_MaturityHeight = consensusSetHeight w + MaturityDelay E,
          po_WalletAddress = exists,
          po_RelatedAddress = sfi_ClaimUnlockHash sfi,
          po_Value = claimValue\<rparr>]\<rparr>,
      w))"

definition siafundOutputStep :: "env \<Rightarrow> Transaction \<Rightarrow> nat \<Rightarrow> SiafundOutput \<Rightarrow> building \<Rightarrow> building" where
  "siafundOutputStep E txn i sfo = (\<lambda>(relevant, pt, w).
     let exists = (sfo_UnlockHash sfo \<in> keys w) in
     (relevant \<or> exists,
      pt\<lparr>Outputs := Outputs pt @
        [\<lparr>po_FundType = SpecifierSiafundOutput,
          po_MaturityHeight = consensusSetHeight w,
          po_WalletAddress = exists,
          po_RelatedAddress = sfo_UnlockHash sfo,
          po_Value = sfo_Value sfo\<rparr>]\<rparr>,
      w\<lparr>historicOutputs :=
          (historicOutputs w)(Transaction_SiafundOutputID E txn (of_nat i) \<mapsto> sfo_Value sfo),
        historicClaimStarts :=
          (historicClaimStarts w)(Transaction_SiafundOutputID E txn (of_nat i) \<mapsto> sfo_ClaimStart sfo)\<rparr>))"

text \<open>A miner fee has a fund type and a value; the other fields keep their zero values.\<close>

definition minerFeeStep :: "nat \<Rightarrow> Currency \<Rightarrow> building \<Rightarrow> building" where
  "minerFeeStep i fee = (\<lambda>(relevant, pt, w).
     (relevant,
      pt\<lparr>Outputs := Outputs pt @
        [\<lparr>po_FundType = SpecifierMinerFee,
          po_MaturityHeight = 0,
          po_WalletAddress = False,
          po_RelatedAddress = 0,
          po_Value = fee\<rparr>]\<rparr>,
      w))"

text \<open>The body of the loop over \<open>block.Transactions\<close>, up to the test of \<open>relevant\<close>.\<close>

definition buildTransaction :: "env \<Rightarrow> Block \<Rightarrow> Wallet \<Rightarrow> Transaction \<Rightarrow> building" where
  "buildTransaction E block w txn =
     (let pt = \<lparr>pt_Transaction = txn,
                TransactionID = Transaction_ID E txn,
                ConfirmationHeight = consensusSetHeight w,
                ConfirmationTimestamp = Timestamp block,
                Inputs = [], Outputs = []\<rparr>;
          b1 = forRange (siacoinInputStep E) 0 (SiacoinInputs txn) (False, pt, w);
          b2 = forRange (siacoinOutputStep E txn) 0 (SiacoinOutputs txn) b1;
          b3 = forRange (siafundInputStep E) 0 (SiafundInputs txn) b2;
          b4 = forRange (siafundOutputStep E txn) 0 (SiafundOutputs txn) b3
      in forRange minerFeeStep 0 (MinerFees txn) b4)"

text \<open>Appending an entry to the log and indexing it, when it is relevant.\<close>

definition commit :: "env \<Rightarrow> building \<Rightarrow> Wallet" where
  "commit E = (\<lambda>(relevant, pt, w).
     if relevant then index_last (append_pt E w pt) (TransactionID pt) else w)"

definition applyTransaction :: "env \<Rightarrow> Block \<Rightarrow> Wallet \<Rightarrow> Transaction \<Rightarrow> Wallet" where
  "applyTransaction E block w txn = commit E (buildTransaction E block w txn)"

definition buildMinerPayouts :: "env \<Rightarrow> Wallet \<Rightarrow> Block \<Rightarrow> building" where
  "buildMinerPayouts E w block =
     (let minerPT = \<lparr>pt_Transaction = zeroTransaction,
                     TransactionID = Block_ID E block,
                     ConfirmationHeight = consensusSetHeight w,
                     ConfirmationTimestamp = Timestamp block,
                     Inputs = [], Outputs = []\<rparr>
      in forRange (minerPayoutStep E block) 0 (MinerPayouts block) (False, minerPT, w))"

definition applyBlock :: "env \<Rightarrow> Wallet \<Rightarrow> Block \<Rightarrow> Wallet" where
  "applyBlock E w block =
     (let w1 = w\<lparr>consensusSetHeight := consensusSetHeight w + 1\<rparr>;
          w2 = commit E (buildMinerPayouts E w1 block)
      in foldl (applyTransaction E block) w2 (Transactions block))"

definition applyHistory :: "env \<Rightarrow> Wallet \<Rightarrow> ConsensusChange \<Rightarrow> Wallet" where
  "applyHistory E w cc = foldl (applyBlock E) w (AppliedBlocks cc)"

section \<open>ProcessConsensusChange\<close>

text \<open>
  Modelled from the spec: the wallet's ThreadGroup (\<open>w.tg\<close>) is not among the sources.
  Registering with it fails once shutdown has begun, and only then; \<open>tg_Add\<close> says
  whether \<open>w.tg.Add()\<close> returns an error. On success the registration is undone by the
  deferred \<open>w.tg.Done()\<close>, and the mutex is held for the rest of the body, so the body
  runs on the wallet alone. The goroutine started when \<open>cc.Synced\<close> works on the wallet
  later, under its own lock, and is not part of this call.
\<close>

definition tg_Add :: "Wallet \<Rightarrow> bool" where
  "tg_Add w = tg_stopped w"

definition ProcessConsensusChange :: "env \<Rightarrow> Wallet \<Rightarrow> ConsensusChange \<Rightarrow> panic + Wallet" where
  "ProcessConsensusChange E w cc =
     (if tg_Add w then Inr w
      else case updateConfirmedSet E w cc of
             Inl p \<Rightarrow> Inl p
           | Inr w1 \<Rightarrow>
               (case revertHistory E w1 cc of
                  Inl p \<Rightarrow> Inl p
                | Inr w2 \<Rightarrow> Inr (applyHistory E w2 cc)))"

section \<open>ReceiveUpdatedUnconfirmedTransactions\<close>

definition MaxUint64 :: "64 word" where
  "MaxUint64 = 18446744073709551615"

definition unconfirmedSiacoinInputStep :: "env \<Rightarrow> nat \<Rightarrow> SiacoinInput \<Rightarrow> building \<Rightarrow> building" where
  "unconfirmedSiacoinInputStep E i sci = (\<lambda>(relevant, pt, w).
     let exists = (UnlockConditions_UnlockHash E (sci_UnlockConditions sci) \<in> keys w) in
     (relevant \<or> exists,
      pt\<lparr>Inputs := Inputs pt @
        [\<lparr>pi_FundType = SpecifierSiacoinInput,
          pi_WalletAddress = exists,
          pi_RelatedAddress = UnlockConditions_UnlockHash E (sci_UnlockConditions sci),
          pi_Value = currencyAt (historicOutputs w) (sci_ParentID sci)\<rparr>]\<rparr>,
      w))"

definition unconfirmedSiacoinOutputStep :: "env \<Rightarrow> Transaction \<Rightarrow> nat \<Rightarrow> SiacoinOutput \<Rightarrow> building \<Rightarrow> building" where
  "unconfirmedSiacoinOutputStep E txn i sco = (\<lambda>(relevant, pt, w).
     let exists = (sco_UnlockHash sco \<in> keys w) in
     (relevant \<or> exists,
      pt\<lparr>Outputs := Outputs pt @
        [\<lparr>po_FundType = SpecifierSiacoinOutput,
          po_MaturityHeight = MaxUint64,
          po_WalletAddress = exists,
          po_RelatedAddress = sco_UnlockHash sco,
          po_Value = sco_Value sco\<rparr>]\<rparr>,
      w\<lparr>historicOutputs :=
          (historicOutputs w)(Transaction_SiacoinOutputID E txn (of_nat i) \<mapsto> sco_Value sco)\<rparr>))"

definition buildUnconfirmed :: "env \<Rightarrow> Wallet \<Rightarrow> Transaction \<Rightarrow> building" where
  "buildUnconfirmed E w txn =
     (let pt = \<lparr>pt_Transaction = txn,
                TransactionID = Transaction_ID E txn,
                ConfirmationHeight = MaxUint64,
                ConfirmationTimestamp = MaxUint64,
                Inputs = [], Outputs = []\<rparr>;
          b1 = forRange (unconfirmedSiacoinInputStep E) 0 (SiacoinInputs txn) (False, pt, w);
          b2 = forRange (unconfirmedSiacoinOutputStep E txn) 0 (SiacoinOutputs txn) b1
      in forRange minerFeeStep 0 (MinerFees txn) b2)"

definition receiveTransaction :: "env \<Rightarrow> Wallet \<Rightarrow> Transaction \<Rightarrow> Wallet" where
  "receiveTransaction E w txn =
     (case buildUnconfirmed E w txn of (relevant, pt, w') \<Rightarrow>
        if relevant then
          w'\<lparr>unconfirmedProcessedTransactions := unconfirmedProcessedTransactions w' @ [pt]\<rparr>
        else w')"

definition ReceiveUpdatedUnconfirmedTransactions :: "env \<Rightarrow> Wallet \<Rightarrow> Transaction list \<Rightarrow> Wallet" where
  "ReceiveUpdatedUnconfirmedTransactions E w txns =
     (if tg_Add w then w
      else foldl (receiveTransaction E) (w\<lparr>unconfirmedProcessedTransactions := []\<rparr>) txns)"

section \<open>Closed forms of the loops\<close>

text \<open>The entries the loops append, by what they read.\<close>

definition siacoinInputEntry :: "env \<Rightarrow> hash set \<Rightarrow> (hash \<rightharpoonup> Currency) \<Rightarrow> SiacoinInput \<Rightarrow> ProcessedInput" where
  "siacoinInputEntry E K H sci =
     \<lparr>pi_FundType = SpecifierSiacoinInput,
      pi_WalletAddress = (UnlockConditions_UnlockHash E (sci_UnlockConditions sci) \<in> K),
      pi_RelatedAddress = UnlockConditions_UnlockHash E (sci_UnlockConditions sci),
      pi_Value = currencyAt H (sci_ParentID sci)\<rparr>"

definition siacoinOutputEntry :: "hash set \<Rightarrow> BlockHeight \<Rightarrow> SiacoinOutput \<Rightarrow> ProcessedOutput" where
  "siacoinOutputEntry K h sco =
     \<lparr>po_FundType = SpecifierSiacoinOutput, po_MaturityHeight = h,
      po_WalletAddress = (sco_UnlockHash sco \<in> K),
      po_RelatedAddress = sco_UnlockHash sco, po_Value = sco_Value sco\<rparr>"

definition siafundInputEntry :: "env \<Rightarrow> hash set \<Rightarrow> (hash \<rightharpoonup> Currency) \<Rightarrow> SiafundInput \<Rightarrow> ProcessedInput" where
  "siafundInputEntry E K H sfi =
     \<lparr>pi_FundType = SpecifierSiafundInput,
      pi_WalletAddress = (UnlockConditions_UnlockHash E (sfi_UnlockConditions sfi) \<in> K),
      pi_RelatedAddress = UnlockConditions_UnlockHash E (sfi_UnlockConditions sfi),
      pi_Value = currencyAt H (sfi_ParentID sfi)\<rparr>"

definition claimOutputEntry ::
  "env \<Rightarrow> hash set \<Rightarrow> BlockHeight \<Rightarrow> Currency \<Rightarrow> (hash \<rightharpoonup> Currency) \<Rightarrow> (hash \<rightharpoonup> Currency) \<Rightarrow>
   SiafundInput \<Rightarrow> ProcessedOutput" where
  "claimOutputEntry E K h pool C H sfi =
     \<lparr>po_FundType = SpecifierClaimOutput, po_MaturityHeight = h + MaturityDelay E,
      po_WalletAddress = (UnlockConditions_UnlockHash E (sfi_UnlockConditions sfi) \<in> K),
      po_RelatedAddress = sfi_ClaimUnlockHash sfi,
      po_Value = Currency_Mul E (Currency_Sub E pool (currencyAt C (sfi_ParentID sfi)))
                   (currencyAt H (sfi_ParentID sfi))\<rparr>"

definition siafundOutputEntry :: "hash set \<Rightarrow> BlockHeight \<Rightarrow> SiafundOutput \<Rightarrow> ProcessedOutput" where
  "siafundOutputEntry K h sfo =
     \<lparr>po_FundType = SpecifierSiafundOutput, po_MaturityHeight = h,
      po_WalletAddress = (sfo_UnlockHash sfo \<in> K),
      po_RelatedAddress = sfo_UnlockHash sfo, po_Value = sfo_Value sfo\<rparr>"

definition minerFeeEntry :: "Currency \<Rightarrow> ProcessedOutput" where
  "minerFeeEntry fee =
     \<lparr>po_FundType = SpecifierMinerFee, po_MaturityHeight = 0, po_WalletAddress = False,
      po_RelatedAddress = 0, po_Value = fee\<rparr>"

definition minerPayoutEntry :: "env \<Rightarrow> hash set \<Rightarrow> BlockHeight \<Rightarrow> SiacoinOutput \<Rightarrow> ProcessedOutput" where
  "minerPayoutEntry E K h mp =
     \<lparr>po_FundType = SpecifierMinerPayout, po_MaturityHeight = h + MaturityDelay E,
      po_WalletAddress = (sco_UnlockHash mp \<in> K),
      po_RelatedAddress = sco_UnlockHash mp, po_Value = sco_Value mp\<rparr>"

text \<open>The cache after the writes of a loop over outputs, from index \<open>i\<close> on.\<close>

definition cached :: "(nat \<Rightarrow> 'a \<Rightarrow> hash \<times> Currency) \<Rightarrow> nat \<Rightarrow> 'a list \<Rightarrow> (hash \<rightharpoonup> Currency) \<Rightarrow> (hash \<rightharpoonup> Currency)" where
  "cached kv i xs m = forRange (\<lambda>j x m'. m'(fst (kv j x) \<mapsto> snd (kv j x))) i xs m"

definition siacoinOutputsCached :: "env \<Rightarrow> Transaction \<Rightarrow> (hash \<rightharpoonup> Currency) \<Rightarrow> (hash \<rightharpoonup> Currency)" where
  "siacoinOutputsCached E txn m =
     cached (\<lambda>i sco. (Transaction_SiacoinOutputID E txn (of_nat i), sco_Value sco)) 0
       (SiacoinOutputs txn) m"

definition siafundOutputsCached :: "env \<Rightarrow> Transaction \<Rightarrow> (hash \<rightharpoonup> Currency) \<Rightarrow> (hash \<rightharpoonup> Currency)" where
  "siafundOutputsCached E txn m =
     cached (\<lambda>i sfo. (Transaction_SiafundOutputID E txn (of_nat i), sfo_Value sfo)) 0
       (SiafundOutputs txn) m"

definition claimStartsCached :: "env \<Rightarrow> Transaction \<Rightarrow> (hash \<rightharpoonup> Currency) \<Rightarrow> (hash \<rightharpoonup> Currency)" where
  "claimStartsCached E txn m =
     cached (\<lambda>i sfo. (Transaction_SiafundOutputID E txn (of_nat i), sfo_ClaimStart sfo)) 0
       (SiafundOutputs txn) m"

definition minerPayoutsCached :: "env \<Rightarrow> Block \<Rightarrow> (hash \<rightharpoonup> Currency) \<Rightarrow> (hash \<rightharpoonup> Currency)" where
  "minerPayoutsCached E block m =
     cached (\<lambda>i mp. (Block_MinerPayoutID E block (of_nat i), sco_Value mp)) 0
       (MinerPayouts block) m"

text \<open>Whether a transaction, or a block's miner payouts, touch an owned address.\<close>

definition relevantTransaction :: "env \<Rightarrow> hash set \<Rightarrow> Transaction \<Rightarrow> bool" where
  "relevantTransaction E K txn \<longleftrightarrow>
     (\<exists>sci \<in> set (SiacoinInputs txn). UnlockConditions_UnlockHash E (sci_UnlockConditions sci) \<in> K)
   \<or> (\<exists>sco \<in> set (SiacoinOutputs txn). sco_UnlockHash sco \<in> K)
   \<or> (\<exists>sfi \<in> set (SiafundInputs txn). UnlockConditions_UnlockHash E (sfi_UnlockConditions sfi) \<in> K)
   \<or> (\<exists>sfo \<in> set (SiafundOutputs txn). sfo_UnlockHash sfo \<in> K)"

definition relevantPayouts :: "hash set \<Rightarrow> Block \<Rightarrow> bool" where
  "relevantPayouts K block \<longleftrightarrow> (\<exists>mp \<in> set (MinerPayouts block). sco_UnlockHash mp \<in> K)"

definition relevantSiacoin :: "env \<Rightarrow> hash set \<Rightarrow> Transaction \<Rightarrow> bool" where
  "relevantSiacoin E K txn \<longleftrightarrow>
     (\<exists>sci \<in> set (SiacoinInputs txn). UnlockConditions_UnlockHash E (sci_UnlockConditions sci) \<in> K)
   \<or> (\<exists>sco \<in> set (SiacoinOutputs txn). sco_UnlockHash sco \<in> K)"

text \<open>The cache writes of a loop over outputs, in the order they are made.\<close>

fun writes :: "(nat \<Rightarrow> 'a \<Rightarrow> hash \<times> Currency) \<Rightarrow> nat \<Rightarrow> 'a list \<Rightarrow> (hash \<times> Currency) list" where
  "writes kv i [] = []"
| "writes kv i (x # xs) = kv i x # writes kv (Suc i) xs"

definition siacoinOutputWrites :: "env \<Rightarrow> Transaction \<Rightarrow> (hash \<times> Currency) list" where
  "siacoinOutputWrites E txn =
     writes (\<lambda>i sco. (Transaction_SiacoinOutputID E txn (of_nat i), sco_Value sco)) 0
       (SiacoinOutputs txn)"

definition receiveWrites :: "env \<Rightarrow> Transaction list \<Rightarrow> (hash \<times> Currency) list" where
  "receiveWrites E txns = concat (map (siacoinOutputWrites E) txns)"

section \<open>The history passes on the entries of the log\<close>

text \<open>
  What the revert pass does to the entries of the log, given the identifiers of the
  transactions in the order they are inspected.
\<close>

fun unwind :: "hash list \<Rightarrow> ProcessedTransaction list \<Rightarrow> ProcessedTransaction list" where
  "unwind [] L = L"
| "unwind (txid # txids) L =
     unwind txids (if L \<noteq> [] \<and> txid = TransactionID (last L) then butlast L else L)"

text \<open>The fields that neither history pass writes.\<close>

definition ledger ::
  "Wallet \<Rightarrow> hash set \<times> (hash \<rightharpoonup> SiacoinOutput) \<times> (hash \<rightharpoonup> SiafundOutput) \<times> Currency \<times> bool" where
  "ledger w = (keys w, siacoinOutputs w, siafundOutputs w, siafundPool w, tg_stopped w)"

section \<open>Diffs that agree with the wallet, and the consensus change that undoes another\<close>







text \<open>The pool level after a list of pool diffs.\<close>

fun poolApplied :: "Currency \<Rightarrow> SiafundPoolDiff list \<Rightarrow> Currency" where
  "poolApplied p [] = p"
| "poolApplied p (d # ds) =
     poolApplied (if spd_Direction d = DiffApply then Adjusted d else Previous d) ds"


text \<open>
  The consensus change that undoes \<open>cc\<close>, which is how "a second consensus change that
  reverts exactly that block" is read here (the consensus package that produces such changes
  is not among the sources): its blocks change sides, newest first, and its diffs come in
  the opposite order with the opposite direction.
\<close>

fun opposite :: "DiffDirection \<Rightarrow> DiffDirection" where
  "opposite DiffApply = DiffRevert"
| "opposite DiffRevert = DiffApply"

definition reverting :: "ConsensusChange \<Rightarrow> ConsensusChange" where
  "reverting cc =
     \<lparr>RevertedBlocks = rev (AppliedBlocks cc),
      AppliedBlocks = rev (RevertedBlocks cc),
      SiacoinOutputDiffs =
        rev (map (\<lambda>d. d\<lparr>scod_Direction := opposite (scod_Direction d)\<rparr>) (SiacoinOutputDiffs cc)),
      SiafundOutputDiffs =
        rev (map (\<lambda>d. d\<lparr>sfod_Direction := opposite (sfod_Direction d)\<rparr>) (SiafundOutputDiffs cc)),
      SiafundPoolDiffs =
        rev (map (\<lambda>d. d\<lparr>spd_Direction := opposite (spd_Direction d)\<rparr>) (SiafundPoolDiffs cc)),
      Synced = Synced cc\<rparr>"


section \<open>The index and the log\<close>

text \<open>
  C5 as it is stated: every pointer in the index refers to a slot of the log's backing
  array, below its length, that holds the entry bearing the pointer's identifier.
\<close>

definition index_live :: "Wallet \<Rightarrow> bool" where
  "index_live w \<longleftrightarrow>
     (\<forall>txid a i. processedTransactionMap w txid = Some (a, i) \<longrightarrow>
        a = s_array (processedTransactions w)
      \<and> i < s_len (processedTransactions w)
      \<and> TransactionID (arrays w a i) = txid)"

text \<open>
  What the code keeps: every pointer in the index refers to a slot number below the log's
  length and to an entry, possibly in an earlier backing array, that bears the pointer's
  identifier and equals the entry of the log in that slot.
\<close>

definition index_valid :: "Wallet \<Rightarrow> bool" where
  "index_valid w \<longleftrightarrow>
     (\<forall>txid a i. processedTransactionMap w txid = Some (a, i) \<longrightarrow>
        i < s_len (processedTransactions w)
      \<and> arrays w a i = arrays w (s_array (processedTransactions w)) i
      \<and> TransactionID (arrays w a i) = txid)"

text \<open>
  The revert pass of a list of blocks pops, for each block with an owned miner payout, a
  tail entry that bears the block's identifier.
\<close>

fun popsOwnEntries :: "env \<Rightarrow> hash set \<Rightarrow> ProcessedTransaction list \<Rightarrow> Block list \<Rightarrow> bool" where
  "popsOwnEntries E K L [] = True"
| "popsOwnEntries E K L (block # blocks) =
     (let U = unwind (rev (map (Transaction_ID E) (Transactions block))) L in
      if relevantPayouts K block
      then U \<noteq> [] \<and> TransactionID (last U) = Block_ID E block
         \<and> popsOwnEntries E K (butlast U) blocks
      else popsOwnEntries E K U blocks)"

fun revertsOwnEntries :: "env \<Rightarrow> Wallet \<Rightarrow> ConsensusChange list \<Rightarrow> bool" where
  "revertsOwnEntries E w [] = True"
| "revertsOwnEntries E w (cc # ccs) =
     (popsOwnEntries E (keys w) (log_entries w) (RevertedBlocks cc)
      \<and> (case ProcessConsensusChange E w cc of
            Inl p \<Rightarrow> True
          | Inr w' \<Rightarrow> revertsOwnEntries E w' ccs))"

text \<open>The fields the index invariant reads.\<close>

definition logState :: "Wallet \<Rightarrow> slice \<times> (hash \<rightharpoonup> pointer) \<times> (nat \<Rightarrow> nat \<Rightarrow> ProcessedTransaction)" where
  "logState w = (processedTransactions w, processedTransactionMap w, arrays w)"

section \<open>Concrete inputs\<close>

text \<open>
  An environment with small digest functions, an empty wallet that owns the address 7,
  and the inputs at which the theorems below are instantiated.
\<close>

definition env_debug :: env where
  "env_debug =
     \<lparr>DEBUG = True, MaturityDelay = 144,
      Transaction_ID = txn_Other,
      Block_ID = Nonce,
      Block_MinerPayoutID = (\<lambda>b i. 1000 + 10 * Nonce b + unat i),
      Transaction_SiacoinOutputID = (\<lambda>t i. 2000 + 10 * txn_Other t + unat i),
      Transaction_SiafundOutputID = (\<lambda>t i. 3000 + 10 * txn_Other t + unat i),
      UnlockConditions_UnlockHash = (\<lambda>uc. uc),
      Currency_Sub = (\<lambda>x y. x - y),
      Currency_Mul = (\<lambda>x y. x * y),
      growslice = (\<lambda>cap n. 2 * cap)\<rparr>"

definition env_release :: env where
  "env_release = env_debug\<lparr>DEBUG := False\<rparr>"

definition wallet_new :: Wallet where
  "wallet_new =
     \<lparr>keys = {7}, siacoinOutputs = Map.empty, siafundOutputs = Map.empty,
      siafundPool = 0, consensusSetHeight = 0,
      historicOutputs = Map.empty, historicClaimStarts = Map.empty,
      processedTransactions = \<lparr>s_array = 0, s_len = 0, s_cap = 0\<rparr>,
      processedTransactionMap = Map.empty,
      unconfirmedProcessedTransactions = [],
      arrays = (\<lambda>a i. zeroProcessedTransaction), next_array = 1,
      tg_stopped = False\<rparr>"

definition cc_none :: ConsensusChange where
  "cc_none = \<lparr>RevertedBlocks = [], AppliedBlocks = [], SiacoinOutputDiffs = [],
      SiafundOutputDiffs = [], SiafundPoolDiffs = [], Synced = False\<rparr>"

definition wallet_c1 :: Wallet where
  "wallet_c1 = wallet_new\<lparr>siacoinOutputs := [5 \<mapsto> \<lparr>sco_Value = 10, sco_UnlockHash = 7\<rparr>]\<rparr>"

definition cc_c1 :: ConsensusChange where
  "cc_c1 = cc_none\<lparr>SiacoinOutputDiffs :=
     [\<lparr>scod_Direction = DiffApply, scod_ID = 5,
       scod_SiacoinOutput = \<lparr>sco_Value = 20, sco_UnlockHash = 7\<rparr>\<rparr>]\<rparr>"

definition cc_pool :: ConsensusChange where
  "cc_pool = cc_none\<lparr>SiafundPoolDiffs :=
     [\<lparr>spd_Direction = DiffApply, Previous = 0, Adjusted = 30\<rparr>,
      \<lparr>spd_Direction = DiffRevert, Previous = 12, Adjusted = 30\<rparr>]\<rparr>"

definition block_one :: Block where
  "block_one = \<lparr>ParentID = 0, Nonce = 1, Timestamp = 1000, MinerPayouts = [], Transactions = []\<rparr>"

definition txn_siafund_out :: Transaction where
  "txn_siafund_out =
     zeroTransaction\<lparr>SiafundOutputs := [\<lparr>sfo_Value = 3, sfo_UnlockHash = 7, sfo_ClaimStart = 0\<rparr>],
                     txn_Other := 11\<rparr>"



definition txn_foreign :: Transaction where
  "txn_foreign =
     zeroTransaction\<lparr>SiacoinInputs := [\<lparr>sci_ParentID = 40, sci_UnlockConditions = 9\<rparr>],
                     SiacoinOutputs := [\<lparr>sco_Value = 100, sco_UnlockHash = 9\<rparr>],
                     txn_Other := 13\<rparr>"

definition txn_own :: Transaction where
  "txn_own =
     zeroTransaction\<lparr>SiacoinOutputs := [\<lparr>sco_Value = 100, sco_UnlockHash = 7\<rparr>],
                     txn_Other := 15\<rparr>"

definition pt_own :: ProcessedTransaction where
  "pt_own =
     \<lparr>pt_Transaction = txn_own, TransactionID = 15, ConfirmationHeight = 1,
      ConfirmationTimestamp = 2000, Inputs = [],
      Outputs = [\<lparr>po_FundType = SpecifierSiacoinOutput, po_MaturityHeight = 1,
                  po_WalletAddress = True, po_RelatedAddress = 7, po_Value = 100\<rparr>]\<rparr>"



definition block_round :: Block where
  "block_round =
     \<lparr>ParentID = 0, Nonce = 2, Timestamp = 2000,
      MinerPayouts = [\<lparr>sco_Value = 50, sco_UnlockHash = 7\<rparr>],
      Transactions = [txn_own, txn_foreign]\<rparr>"

definition cc_round :: ConsensusChange where
  "cc_round =
     cc_none\<lparr>AppliedBlocks := [block_round],
             SiacoinOutputDiffs :=
               [\<lparr>scod_Direction = DiffApply, scod_ID = 2150,
                 scod_SiacoinOutput = \<lparr>sco_Value = 100, sco_UnlockHash = 7\<rparr>\<rparr>],
             SiafundPoolDiffs := [\<lparr>spd_Direction = DiffApply, Previous = 0, Adjusted = 30\<rparr>]\<rparr>"

section \<open>Properties of updateConfirmedSet and of the shutdown gate\<close>

lemma forEach_append:
  "forEach body s (xs @ ys) =
     (case forEach body s xs of Inl p \<Rightarrow> Inl p | Inr s' \<Rightarrow> forEach body s' ys)"
  by (induction xs arbitrary: s) (auto split: sum.splits)

text \<open>
  C1 fails as stated. The check is guarded by \<open>build.DEBUG\<close>. Without the flag, an
  apply-direction diff for an identifier that is already in the ledger returns normally and
  replaces the entry.
\<close>
theorem updateConfirmedSet_silent_overwrite:
  "updateConfirmedSet env_release wallet_c1 cc_c1 =
     Inr (wallet_c1\<lparr>siacoinOutputs := [5 \<mapsto> \<lparr>sco_Value = 20, sco_UnlockHash = 7\<rparr>]\<rparr>)"
  by (simp add: updateConfirmedSet_def siacoinOutputDiff_def env_release_def env_debug_def
      wallet_c1_def wallet_new_def cc_c1_def cc_none_def)

lemma siacoinOutputDiff_keys:
  "siacoinOutputDiff E w d = Inr w' \<Longrightarrow> keys w' = keys w \<and> siafundPool w' = siafundPool w"
  by (auto simp: siacoinOutputDiff_def Let_def split: if_splits)

lemma siafundOutputDiff_keys:
  "siafundOutputDiff E w d = Inr w' \<Longrightarrow> keys w' = keys w \<and> siafundPool w' = siafundPool w"
  by (auto simp: siafundOutputDiff_def Let_def split: if_splits)

lemma forEach_siacoinOutputDiff_keys:
  "forEach (siacoinOutputDiff E) w ds = Inr w' \<Longrightarrow> keys w' = keys w \<and> siafundPool w' = siafundPool w"
  by (induction ds arbitrary: w) (auto split: sum.splits dest: siacoinOutputDiff_keys)

lemma forEach_siafundOutputDiff_keys:
  "forEach (siafundOutputDiff E) w ds = Inr w' \<Longrightarrow> keys w' = keys w \<and> siafundPool w' = siafundPool w"
  by (induction ds arbitrary: w) (auto split: sum.splits dest: siafundOutputDiff_keys)

lemma forEach_release_sco: "\<not> DEBUG E \<Longrightarrow> \<exists>w'. forEach (siacoinOutputDiff E) w ds = Inr w'"
  by (induction ds arbitrary: w) (auto simp: siacoinOutputDiff_def Let_def)

lemma forEach_release_sfo: "\<not> DEBUG E \<Longrightarrow> \<exists>w'. forEach (siafundOutputDiff E) w ds = Inr w'"
  by (induction ds arbitrary: w) (auto simp: siafundOutputDiff_def Let_def)

lemma updateConfirmedSet_release: "\<not> DEBUG E \<Longrightarrow> \<exists>w'. updateConfirmedSet E w cc = Inr w'"
proof -
  assume r: "\<not> DEBUG E"
  obtain w1 where 1: "forEach (siacoinOutputDiff E) w (SiacoinOutputDiffs cc) = Inr w1"
    using forEach_release_sco [OF r] by blast
  obtain w2 where 2: "forEach (siafundOutputDiff E) w1 (SiafundOutputDiffs cc) = Inr w2"
    using forEach_release_sfo [OF r] by blast
  show ?thesis by (simp add: updateConfirmedSet_def 1 2)
qed

text \<open>
  C1, as the code has it. With \<open>build.DEBUG\<close> set, an owned siacoin or siafund output diff
  that the loop reaches and that is in apply direction with its identifier present, or in
  revert direction with its identifier absent, makes \<open>updateConfirmedSet\<close> panic with
  the matching message. Without the flag \<open>updateConfirmedSet\<close> never panics: an owned
  apply-direction diff stores its output under the identifier whatever was there, and an
  owned revert-direction diff deletes the identifier whether or not it was there.
\<close>
theorem updateConfirmedSet_presence_check:
  "(DEBUG E \<and> SiacoinOutputDiffs cc = pre @ d # post
      \<and> forEach (siacoinOutputDiff E) w pre = Inr w1
      \<and> sco_UnlockHash (scod_SiacoinOutput d) \<in> keys w
      \<and> (scod_Direction d = DiffApply \<longleftrightarrow> siacoinOutputs w1 (scod_ID d) \<noteq> None)
     \<longrightarrow> updateConfirmedSet E w cc =
          Inl (if scod_Direction d = DiffApply then AddingExistingOutput
               else DeletingNonexistingOutput))
   \<and> (DEBUG E \<and> forEach (siacoinOutputDiff E) w (SiacoinOutputDiffs cc) = Inr w2
      \<and> SiafundOutputDiffs cc = pre' @ d' # post'
      \<and> forEach (siafundOutputDiff E) w2 pre' = Inr w3
      \<and> sfo_UnlockHash (sfod_SiafundOutput d') \<in> keys w
      \<and> (sfod_Direction d' = DiffApply \<longleftrightarrow> siafundOutputs w3 (sfod_ID d') \<noteq> None)
     \<longrightarrow> updateConfirmedSet E w cc =
          Inl (if sfod_Direction d' = DiffApply then AddingExistingOutput
               else DeletingNonexistingOutput))
   \<and> (\<not> DEBUG E \<longrightarrow>
        (\<exists>w'. updateConfirmedSet E w cc = Inr w')
      \<and> (sco_UnlockHash (scod_SiacoinOutput d) \<in> keys w \<longrightarrow>
           siacoinOutputDiff E w d =
             Inr (w\<lparr>siacoinOutputs :=
                     (if scod_Direction d = DiffApply
                      then (siacoinOutputs w)(scod_ID d \<mapsto> scod_SiacoinOutput d)
                      else (siacoinOutputs w)(scod_ID d := None))\<rparr>))
      \<and> (sfo_UnlockHash (sfod_SiafundOutput d') \<in> keys w \<longrightarrow>
           siafundOutputDiff E w d' =
             Inr (w\<lparr>siafundOutputs :=
                     (if sfod_Direction d' = DiffApply
                      then (siafundOutputs w)(sfod_ID d' \<mapsto> sfod_SiafundOutput d')
                      else (siafundOutputs w)(sfod_ID d' := None))\<rparr>)))"
proof (intro conjI impI)
  assume a: "DEBUG E \<and> SiacoinOutputDiffs cc = pre @ d # post
      \<and> forEach (siacoinOutputDiff E) w pre = Inr w1
      \<and> sco_UnlockHash (scod_SiacoinOutput d) \<in> keys w
      \<and> (scod_Direction d = DiffApply \<longleftrightarrow> siacoinOutputs w1 (scod_ID d) \<noteq> None)"
  then have k: "keys w1 = keys w" using forEach_siacoinOutputDiff_keys by blast
  have "siacoinOutputDiff E w1 d =
          Inl (if scod_Direction d = DiffApply then AddingExistingOutput
               else DeletingNonexistingOutput)"
    using a k by (auto simp: siacoinOutputDiff_def)
  then show "updateConfirmedSet E w cc =
          Inl (if scod_Direction d = DiffApply then AddingExistingOutput
               else DeletingNonexistingOutput)"
    using a by (simp add: updateConfirmedSet_def forEach_append)
next
  assume a: "DEBUG E \<and> forEach (siacoinOutputDiff E) w (SiacoinOutputDiffs cc) = Inr w2
      \<and> SiafundOutputDiffs cc = pre' @ d' # post'
      \<and> forEach (siafundOutputDiff E) w2 pre' = Inr w3
      \<and> sfo_UnlockHash (sfod_SiafundOutput d') \<in> keys w
      \<and> (sfod_Direction d' = DiffApply \<longleftrightarrow> siafundOutputs w3 (sfod_ID d') \<noteq> None)"
  then have k: "keys w3 = keys w"
    using forEach_siacoinOutputDiff_keys forEach_siafundOutputDiff_keys by metis
  have "siafundOutputDiff E w3 d' =
          Inl (if sfod_Direction d' = DiffApply then AddingExistingOutput
               else DeletingNonexistingOutput)"
    using a k by (auto simp: siafundOutputDiff_def)
  then show "updateConfirmedSet E w cc =
          Inl (if sfod_Direction d' = DiffApply then AddingExistingOutput
               else DeletingNonexistingOutput)"
    using a by (simp add: updateConfirmedSet_def forEach_append)
next
  assume "\<not> DEBUG E"
  then show "\<exists>w'. updateConfirmedSet E w cc = Inr w'" by (rule updateConfirmedSet_release)
next
  assume "\<not> DEBUG E" "sco_UnlockHash (scod_SiacoinOutput d) \<in> keys w"
  then show "siacoinOutputDiff E w d =
             Inr (w\<lparr>siacoinOutputs :=
                     (if scod_Direction d = DiffApply
                      then (siacoinOutputs w)(scod_ID d \<mapsto> scod_SiacoinOutput d)
                      else (siacoinOutputs w)(scod_ID d := None))\<rparr>)"
    by (simp add: siacoinOutputDiff_def)
next
  assume "\<not> DEBUG E" "sfo_UnlockHash (sfod_SiafundOutput d') \<in> keys w"
  then show "siafundOutputDiff E w d' =
             Inr (w\<lparr>siafundOutputs :=
                     (if sfod_Direction d' = DiffApply
                      then (siafundOutputs w)(sfod_ID d' \<mapsto> sfod_SiafundOutput d')
                      else (siafundOutputs w)(sfod_ID d' := None))\<rparr>)"
    by (simp add: siafundOutputDiff_def)
qed

theorem updateConfirmedSet_presence_check_witness:
  "updateConfirmedSet env_debug wallet_c1 cc_c1 = Inl AddingExistingOutput"
  using updateConfirmedSet_presence_check [where E = env_debug and cc = cc_c1 and pre = "[]" and post = "[]"
      and d = "\<lparr>scod_Direction = DiffApply, scod_ID = 5,
                scod_SiacoinOutput = \<lparr>sco_Value = 20, sco_UnlockHash = 7\<rparr>\<rparr>"
      and w = wallet_c1 and ?w1.0 = wallet_c1]
  by (simp add: env_debug_def wallet_c1_def wallet_new_def cc_c1_def cc_none_def)

lemma foldl_siafundPoolDiff_snoc:
  "siafundPool (foldl siafundPoolDiff w (ds @ [d])) =
     (if spd_Direction d = DiffApply then Adjusted d else Previous d)"
  by (simp add: siafundPoolDiff_def)

text \<open>
  C7. A pool diff in apply direction sets the pool level to the diff's \<open>Adjusted\<close>
  value and one in revert direction sets it to the diff's \<open>Previous\<close> value; after
  \<open>updateConfirmedSet\<close> the pool level is the value taken from the last pool diff of the
  consensus change in this way, and the old level when there is none.
\<close>
theorem updateConfirmedSet_pool_diffs:
  "siafundPool (siafundPoolDiff w d) =
     (if spd_Direction d = DiffApply then Adjusted d else Previous d)
   \<and> (updateConfirmedSet E w cc = Inr w' \<longrightarrow>
        siafundPool w' =
          (if SiafundPoolDiffs cc = [] then siafundPool w
           else if spd_Direction (last (SiafundPoolDiffs cc)) = DiffApply
                then Adjusted (last (SiafundPoolDiffs cc))
                else Previous (last (SiafundPoolDiffs cc))))"
proof (intro conjI impI)
  show "siafundPool (siafundPoolDiff w d) =
     (if spd_Direction d = DiffApply then Adjusted d else Previous d)"
    by (simp add: siafundPoolDiff_def)
next
  assume u: "updateConfirmedSet E w cc = Inr w'"
  then obtain w1 w2 where 1: "forEach (siacoinOutputDiff E) w (SiacoinOutputDiffs cc) = Inr w1"
    and 2: "forEach (siafundOutputDiff E) w1 (SiafundOutputDiffs cc) = Inr w2"
    and 3: "w' = foldl siafundPoolDiff w2 (SiafundPoolDiffs cc)"
    by (auto simp: updateConfirmedSet_def split: sum.splits)
  have p: "siafundPool w2 = siafundPool w"
    using forEach_siacoinOutputDiff_keys [OF 1] forEach_siafundOutputDiff_keys [OF 2] by simp
  show "siafundPool w' =
          (if SiafundPoolDiffs cc = [] then siafundPool w
           else if spd_Direction (last (SiafundPoolDiffs cc)) = DiffApply
                then Adjusted (last (SiafundPoolDiffs cc))
                else Previous (last (SiafundPoolDiffs cc)))"
  proof (cases "SiafundPoolDiffs cc" rule: rev_cases)
    case Nil
    then show ?thesis using 3 p by simp
  next
    case (snoc ds d)
    then show ?thesis using 3 foldl_siafundPoolDiff_snoc [of w2 ds d] by simp
  qed
qed

theorem updateConfirmedSet_pool_diffs_witness:
  "updateConfirmedSet env_debug wallet_new cc_pool = Inr (wallet_new\<lparr>siafundPool := 12\<rparr>)
   \<and> siafundPool (wallet_new\<lparr>siafundPool := 12\<rparr>) = 12"
  using updateConfirmedSet_pool_diffs [of wallet_new "\<lparr>spd_Direction = DiffApply, Previous = 0, Adjusted = 30\<rparr>"
      env_debug cc_pool "wallet_new\<lparr>siafundPool := 12\<rparr>"]
  by (simp add: updateConfirmedSet_def siafundPoolDiff_def cc_pool_def cc_none_def wallet_new_def)

text \<open>
  C8. Once the ThreadGroup has been stopped, \<open>ProcessConsensusChange\<close> and
  \<open>ReceiveUpdatedUnconfirmedTransactions\<close> return at once: the wallet is unchanged and
  there is no panic.
\<close>
theorem shutdown_noop:
  "tg_stopped w \<Longrightarrow>
     ProcessConsensusChange E w cc = Inr w
   \<and> ReceiveUpdatedUnconfirmedTransactions E w txns = w"
  by (simp add: ProcessConsensusChange_def ReceiveUpdatedUnconfirmedTransactions_def tg_Add_def)

theorem shutdown_noop_witness:
  "ProcessConsensusChange env_debug (wallet_c1\<lparr>tg_stopped := True\<rparr>) cc_c1 =
     Inr (wallet_c1\<lparr>tg_stopped := True\<rparr>)
   \<and> ReceiveUpdatedUnconfirmedTransactions env_debug (wallet_c1\<lparr>tg_stopped := True\<rparr>)
       [txn_foreign] = wallet_c1\<lparr>tg_stopped := True\<rparr>
   \<and> ProcessConsensusChange env_debug wallet_c1 cc_c1 = Inl AddingExistingOutput"
  using shutdown_noop [of "wallet_c1\<lparr>tg_stopped := True\<rparr>" env_debug cc_c1 "[txn_foreign]"]
  by (simp add: ProcessConsensusChange_def tg_Add_def updateConfirmedSet_def
      siacoinOutputDiff_def env_debug_def wallet_c1_def wallet_new_def cc_c1_def cc_none_def)

section \<open>Properties of the entries built by the apply pass and by the unconfirmed view\<close>

lemma cached_Cons:
  "cached kv i (x # xs) m = cached kv (Suc i) xs (m(fst (kv i x) \<mapsto> snd (kv i x)))"
  by (simp add: cached_def)

lemma cached_Nil: "cached kv i [] m = m"
  by (simp add: cached_def)

lemma siacoinInput_loop:
  "forRange (siacoinInputStep E) i scis (r, pt, w) =
     (r \<or> (\<exists>sci \<in> set scis. UnlockConditions_UnlockHash E (sci_UnlockConditions sci) \<in> keys w),
      pt\<lparr>Inputs := Inputs pt @ map (siacoinInputEntry E (keys w) (historicOutputs w)) scis\<rparr>,
      w)"
  by (induction scis arbitrary: i r pt) (auto simp: siacoinInputStep_def siacoinInputEntry_def Let_def)

lemma siacoinOutput_loop:
  "forRange (siacoinOutputStep E txn) i scos (r, pt, w) =
     (r \<or> (\<exists>sco \<in> set scos. sco_UnlockHash sco \<in> keys w),
      pt\<lparr>Outputs := Outputs pt @ map (siacoinOutputEntry (keys w) (consensusSetHeight w)) scos\<rparr>,
      w\<lparr>historicOutputs :=
          cached (\<lambda>i sco. (Transaction_SiacoinOutputID E txn (of_nat i), sco_Value sco)) i scos
            (historicOutputs w)\<rparr>)"
  by (induction scos arbitrary: i r pt w)
     (auto simp: siacoinOutputStep_def siacoinOutputEntry_def cached_Cons cached_Nil Let_def)

lemma siafundInput_loop:
  "forRange (siafundInputStep E) i sfis (r, pt, w) =
     (r \<or> (\<exists>sfi \<in> set sfis. UnlockConditions_UnlockHash E (sfi_UnlockConditions sfi) \<in> keys w),
      pt\<lparr>Inputs := Inputs pt @ map (siafundInputEntry E (keys w) (historicOutputs w)) sfis,
         Outputs := Outputs pt @
           map (claimOutputEntry E (keys w) (consensusSetHeight w) (siafundPool w)
                  (historicClaimStarts w) (historicOutputs w)) sfis\<rparr>,
      w)"
  by (induction sfis arbitrary: i r pt)
     (auto simp: siafundInputStep_def siafundInputEntry_def claimOutputEntry_def Let_def)

lemma siafundOutput_loop:
  "forRange (siafundOutputStep E txn) i sfos (r, pt, w) =
     (r \<or> (\<exists>sfo \<in> set sfos. sfo_UnlockHash sfo \<in> keys w),
      pt\<lparr>Outputs := Outputs pt @ map (siafundOutputEntry (keys w) (consensusSetHeight w)) sfos\<rparr>,
      w\<lparr>historicOutputs :=
          cached (\<lambda>i sfo. (Transaction_SiafundOutputID E txn (of_nat i), sfo_Value sfo)) i sfos
            (historicOutputs w),
        historicClaimStarts :=
          cached (\<lambda>i sfo. (Transaction_SiafundOutputID E txn (of_nat i), sfo_ClaimStart sfo)) i sfos
            (historicClaimStarts w)\<rparr>)"
  by (induction sfos arbitrary: i r pt w)
     (auto simp: siafundOutputStep_def siafundOutputEntry_def cached_Cons cached_Nil Let_def)

lemma minerFee_loop:
  "forRange minerFeeStep i fees (r, pt, w) =
     (r, pt\<lparr>Outputs := Outputs pt @ map minerFeeEntry fees\<rparr>, w)"
  by (induction fees arbitrary: i pt) (auto simp: minerFeeStep_def minerFeeEntry_def)

lemma minerPayout_loop:
  "forRange (minerPayoutStep E block) i mps (r, pt, w) =
     (r \<or> (\<exists>mp \<in> set mps. sco_UnlockHash mp \<in> keys w),
      pt\<lparr>Outputs := Outputs pt @ map (minerPayoutEntry E (keys w) (consensusSetHeight w)) mps\<rparr>,
      w\<lparr>historicOutputs :=
          cached (\<lambda>i mp. (Block_MinerPayoutID E block (of_nat i), sco_Value mp)) i mps
            (historicOutputs w)\<rparr>)"
  by (induction mps arbitrary: i r pt w)
     (auto simp: minerPayoutStep_def minerPayoutEntry_def cached_Cons cached_Nil Let_def)

lemma buildTransaction_eq:
  "buildTransaction E block w txn =
     (relevantTransaction E (keys w) txn,
      \<lparr>pt_Transaction = txn, TransactionID = Transaction_ID E txn,
       ConfirmationHeight = consensusSetHeight w, ConfirmationTimestamp = Timestamp block,
       Inputs = map (siacoinInputEntry E (keys w) (historicOutputs w)) (SiacoinInputs txn)
              @ map (siafundInputEntry E (keys w) (siacoinOutputsCached E txn (historicOutputs w)))
                  (SiafundInputs txn),
       Outputs = map (siacoinOutputEntry (keys w) (consensusSetHeight w)) (SiacoinOutputs txn)
               @ map (claimOutputEntry E (keys w) (consensusSetHeight w) (siafundPool w)
                        (historicClaimStarts w)
                        (siacoinOutputsCached E txn (historicOutputs w))) (SiafundInputs txn)
               @ map (siafundOutputEntry (keys w) (consensusSetHeight w)) (SiafundOutputs txn)
               @ map minerFeeEntry (MinerFees txn)\<rparr>,
      w\<lparr>historicOutputs :=
          siafundOutputsCached E txn (siacoinOutputsCached E txn (historicOutputs w)),
        historicClaimStarts := claimStartsCached E txn (historicClaimStarts w)\<rparr>)"
  by (simp add: buildTransaction_def siacoinInput_loop siacoinOutput_loop siafundInput_loop
      siafundOutput_loop minerFee_loop relevantTransaction_def siacoinOutputsCached_def
      siafundOutputsCached_def claimStartsCached_def disj_ac)

lemma buildMinerPayouts_eq:
  "buildMinerPayouts E w block =
     (relevantPayouts (keys w) block,
      \<lparr>pt_Transaction = zeroTransaction, TransactionID = Block_ID E block,
       ConfirmationHeight = consensusSetHeight w, ConfirmationTimestamp = Timestamp block,
       Inputs = [],
       Outputs = map (minerPayoutEntry E (keys w) (consensusSetHeight w)) (MinerPayouts block)\<rparr>,
      w\<lparr>historicOutputs := minerPayoutsCached E block (historicOutputs w)\<rparr>)"
  by (simp add: buildMinerPayouts_def minerPayout_loop relevantPayouts_def minerPayoutsCached_def)

lemma unconfirmedSiacoinInput_loop:
  "forRange (unconfirmedSiacoinInputStep E) i scis (r, pt, w) =
     (r \<or> (\<exists>sci \<in> set scis. UnlockConditions_UnlockHash E (sci_UnlockConditions sci) \<in> keys w),
      pt\<lparr>Inputs := Inputs pt @ map (siacoinInputEntry E (keys w) (historicOutputs w)) scis\<rparr>,
      w)"
  by (induction scis arbitrary: i r pt)
     (auto simp: unconfirmedSiacoinInputStep_def siacoinInputEntry_def Let_def)

lemma unconfirmedSiacoinOutput_loop:
  "forRange (unconfirmedSiacoinOutputStep E txn) i scos (r, pt, w) =
     (r \<or> (\<exists>sco \<in> set scos. sco_UnlockHash sco \<in> keys w),
      pt\<lparr>Outputs := Outputs pt @ map (siacoinOutputEntry (keys w) MaxUint64) scos\<rparr>,
      w\<lparr>historicOutputs :=
          cached (\<lambda>i sco. (Transaction_SiacoinOutputID E txn (of_nat i), sco_Value sco)) i scos
            (historicOutputs w)\<rparr>)"
  by (induction scos arbitrary: i r pt w)
     (auto simp: unconfirmedSiacoinOutputStep_def siacoinOutputEntry_def cached_Cons cached_Nil Let_def)

lemma buildUnconfirmed_eq:
  "buildUnconfirmed E w txn =
     (relevantSiacoin E (keys w) txn,
      \<lparr>pt_Transaction = txn, TransactionID = Transaction_ID E txn,
       ConfirmationHeight = MaxUint64, ConfirmationTimestamp = MaxUint64,
       Inputs = map (siacoinInputEntry E (keys w) (historicOutputs w)) (SiacoinInputs txn),
       Outputs = map (siacoinOutputEntry (keys w) MaxUint64) (SiacoinOutputs txn)
               @ map minerFeeEntry (MinerFees txn)\<rparr>,
      w\<lparr>historicOutputs := siacoinOutputsCached E txn (historicOutputs w)\<rparr>)"
  by (simp add: buildUnconfirmed_def unconfirmedSiacoinInput_loop unconfirmedSiacoinOutput_loop
      minerFee_loop relevantSiacoin_def siacoinOutputsCached_def)



lemma map_add_single: "m ++ (map_of [(k, v)] ++ n) = m(k \<mapsto> v) ++ n"
proof
  fix a
  show "(m ++ (map_of [(k, v)] ++ n)) a = (m(k \<mapsto> v) ++ n) a"
    by (cases "n a") (simp_all add: map_add_def)
qed

lemma cached_map_of: "cached kv i xs m = m ++ map_of (rev (writes kv i xs))"
proof (induction xs arbitrary: i m)
  case Nil
  then show ?case by (simp add: cached_Nil)
next
  case (Cons x xs)
  obtain k v where kv: "kv i x = (k, v)" by (cases "kv i x")
  have "cached kv i (x # xs) m = m(k \<mapsto> v) ++ map_of (rev (writes kv (Suc i) xs))"
    by (simp only: cached_Cons Cons.IH kv fst_conv snd_conv)
  also have "\<dots> = m ++ (map_of [(k, v)] ++ map_of (rev (writes kv (Suc i) xs)))"
    by (rule map_add_single [symmetric])
  also have "\<dots> = m ++ map_of (rev (writes kv i (x # xs)))"
    using kv by (simp only: writes.simps rev.simps map_of_append)
  finally show ?case .
qed

lemma writes_nth:
  "j < length xs \<Longrightarrow> kv (i + j) (xs ! j) \<in> set (writes kv i xs)"
proof (induction xs arbitrary: i j)
  case Nil
  then show ?case by simp
next
  case (Cons x xs)
  show ?case
  proof (cases j)
    case 0
    then show ?thesis by simp
  next
    case (Suc j')
    then have "kv (Suc i + j') (xs ! j') \<in> set (writes kv (Suc i) xs)"
      using Cons.prems Cons.IH [of j' "Suc i"] by simp
    then show ?thesis using Suc by simp
  qed
qed

lemma map_of_rev_written:
  assumes "(k, v0) \<in> set ws"
  shows "\<exists>v. (m ++ map_of (rev ws)) k = Some v \<and> (k, v) \<in> set ws"
proof -
  have "k \<in> fst ` set (rev ws)" using assms by force
  then obtain v where v: "map_of (rev ws) k = Some v"
    by (metis domD dom_map_of_conv_image_fst)
  then have "(k, v) \<in> set ws" using map_of_SomeD by fastforce
  then show ?thesis using v by (auto simp: map_add_def)
qed

lemma receiveTransaction_historicOutputs:
  "historicOutputs (receiveTransaction E w txn) =
     historicOutputs w ++ map_of (rev (siacoinOutputWrites E txn))"
  by (simp add: receiveTransaction_def buildUnconfirmed_eq siacoinOutputsCached_def
      siacoinOutputWrites_def cached_map_of)

lemma foldl_receiveTransaction_historicOutputs:
  "historicOutputs (foldl (receiveTransaction E) w txns) =
     historicOutputs w ++ map_of (rev (receiveWrites E txns))"
proof (induction txns arbitrary: w)
  case Nil
  then show ?case by (simp add: receiveWrites_def)
next
  case (Cons txn txns)
  have "historicOutputs (foldl (receiveTransaction E) (receiveTransaction E w txn) txns) =
        (historicOutputs w ++ map_of (rev (siacoinOutputWrites E txn)))
          ++ map_of (rev (receiveWrites E txns))"
    by (simp add: Cons.IH receiveTransaction_historicOutputs)
  then show ?case by (simp add: receiveWrites_def)
qed

text \<open>
  C9. After a rebuild of the unconfirmed view that passed the shutdown gate, the cache
  holds, under the identifier of every siacoin output of every candidate transaction, a
  value written by this call for that identifier: the output's own value, unless the call
  also wrote another value under the same identifier. Whether the transaction is relevant
  plays no part.
\<close>
theorem unconfirmed_rebuild_writes_cache:
  assumes "\<not> tg_stopped w" and "txn \<in> set txns" and "i < length (SiacoinOutputs txn)"
  shows "\<exists>v. historicOutputs (ReceiveUpdatedUnconfirmedTransactions E w txns)
               (Transaction_SiacoinOutputID E txn (of_nat i)) = Some v
           \<and> (Transaction_SiacoinOutputID E txn (of_nat i), v) \<in> set (receiveWrites E txns)
           \<and> ((\<forall>kv \<in> set (receiveWrites E txns).
                  fst kv = Transaction_SiacoinOutputID E txn (of_nat i) \<longrightarrow>
                  snd kv = sco_Value (SiacoinOutputs txn ! i))
               \<longrightarrow> v = sco_Value (SiacoinOutputs txn ! i))"
proof -
  let ?k = "Transaction_SiacoinOutputID E txn (of_nat i)"
  have "(?k, sco_Value (SiacoinOutputs txn ! i)) \<in> set (siacoinOutputWrites E txn)"
    using writes_nth [OF assms(3), of "\<lambda>i sco. (Transaction_SiacoinOutputID E txn (of_nat i), sco_Value sco)" 0]
    by (simp add: siacoinOutputWrites_def)
  then have "(?k, sco_Value (SiacoinOutputs txn ! i)) \<in> set (receiveWrites E txns)"
    using assms(2) by (auto simp: receiveWrites_def)
  then obtain v where v: "(historicOutputs w ++ map_of (rev (receiveWrites E txns))) ?k = Some v"
    and m: "(?k, v) \<in> set (receiveWrites E txns)"
    using map_of_rev_written by meson
  have "historicOutputs (ReceiveUpdatedUnconfirmedTransactions E w txns) ?k = Some v"
    using assms(1) v
    by (simp add: ReceiveUpdatedUnconfirmedTransactions_def tg_Add_def
        foldl_receiveTransaction_historicOutputs)
  then show ?thesis using m by force
qed

theorem unconfirmed_rebuild_writes_cache_witness:
  "historicOutputs (ReceiveUpdatedUnconfirmedTransactions env_debug wallet_new [txn_foreign]) 2130
     = Some 100
   \<and> unconfirmedProcessedTransactions
       (ReceiveUpdatedUnconfirmedTransactions env_debug wallet_new [txn_foreign]) = []
   \<and> historicOutputs wallet_new 2130 = None"
  using unconfirmed_rebuild_writes_cache [of wallet_new txn_foreign "[txn_foreign]" 0 env_debug]
  by (simp add: wallet_new_def txn_foreign_def zeroTransaction_def env_debug_def
      receiveWrites_def siacoinOutputWrites_def ReceiveUpdatedUnconfirmedTransactions_def
      tg_Add_def receiveTransaction_def buildUnconfirmed_eq relevantSiacoin_def)



text \<open>
  C6 fails as stated: for a transaction whose only output is a siafund output to an owned
  address, the apply pass builds an entry with that output and finds it relevant, while the
  rebuild of the unconfirmed view builds an entry without outputs, finds it not relevant and
  leaves the view empty.
\<close>
theorem unconfirmed_ignores_siafunds:
  "fst (snd (buildUnconfirmed env_debug wallet_new txn_siafund_out)) \<noteq>
     (fst (snd (buildTransaction env_debug block_one wallet_new txn_siafund_out)))
       \<lparr>ConfirmationHeight := MaxUint64, ConfirmationTimestamp := MaxUint64\<rparr>
   \<and> Outputs (fst (snd (buildTransaction env_debug block_one wallet_new txn_siafund_out))) =
       [\<lparr>po_FundType = SpecifierSiafundOutput, po_MaturityHeight = 0, po_WalletAddress = True,
         po_RelatedAddress = 7, po_Value = 3\<rparr>]
   \<and> Outputs (fst (snd (buildUnconfirmed env_debug wallet_new txn_siafund_out))) = []
   \<and> fst (buildTransaction env_debug block_one wallet_new txn_siafund_out)
   \<and> \<not> fst (buildUnconfirmed env_debug wallet_new txn_siafund_out)
   \<and> unconfirmedProcessedTransactions
       (ReceiveUpdatedUnconfirmedTransactions env_debug wallet_new [txn_siafund_out]) = []"
  by (simp add: buildTransaction_eq buildUnconfirmed_eq relevantTransaction_def
      relevantSiacoin_def ReceiveUpdatedUnconfirmedTransactions_def receiveTransaction_def
      tg_Add_def siafundOutputEntry_def wallet_new_def txn_siafund_out_def zeroTransaction_def)

text \<open>
  C6, as the code has it. The entry built for a candidate transaction is the entry the apply
  pass would build for it in the same wallet state, with the sentinel as confirmation height
  and timestamp, restricted to the siacoin inputs, the siacoin outputs and the miner fees
  (no siafund input, siafund output or claim output), the maturity height of each siacoin
  output being the sentinel as well. It is relevant, and appended to the view, if and only
  if one of the inputs or outputs it keeps is owned.
\<close>
theorem unconfirmed_entry:
  "fst (snd (buildUnconfirmed E w txn)) =
     (fst (snd (buildTransaction E block w txn)))
       \<lparr>ConfirmationHeight := MaxUint64,
        ConfirmationTimestamp := MaxUint64,
        Inputs :=
          filter (\<lambda>inp. pi_FundType inp = SpecifierSiacoinInput)
            (Inputs (fst (snd (buildTransaction E block w txn)))),
        Outputs :=
          map (\<lambda>out. if po_FundType out = SpecifierSiacoinOutput
                      then out\<lparr>po_MaturityHeight := MaxUint64\<rparr> else out)
            (filter (\<lambda>out. po_FundType out = SpecifierSiacoinOutput
                          \<or> po_FundType out = SpecifierMinerFee)
               (Outputs (fst (snd (buildTransaction E block w txn)))))\<rparr>
   \<and> fst (buildUnconfirmed E w txn) =
       ((\<exists>inp \<in> set (Inputs (fst (snd (buildUnconfirmed E w txn)))). pi_WalletAddress inp)
        \<or> (\<exists>out \<in> set (Outputs (fst (snd (buildUnconfirmed E w txn)))). po_WalletAddress out))
   \<and> unconfirmedProcessedTransactions (receiveTransaction E w txn) =
       unconfirmedProcessedTransactions w @
         (if fst (buildUnconfirmed E w txn) then [fst (snd (buildUnconfirmed E w txn))] else [])"
proof (intro conjI)
  show "fst (snd (buildUnconfirmed E w txn)) =
     (fst (snd (buildTransaction E block w txn)))
       \<lparr>ConfirmationHeight := MaxUint64,
        ConfirmationTimestamp := MaxUint64,
        Inputs :=
          filter (\<lambda>inp. pi_FundType inp = SpecifierSiacoinInput)
            (Inputs (fst (snd (buildTransaction E block w txn)))),
        Outputs :=
          map (\<lambda>out. if po_FundType out = SpecifierSiacoinOutput
                      then out\<lparr>po_MaturityHeight := MaxUint64\<rparr> else out)
            (filter (\<lambda>out. po_FundType out = SpecifierSiacoinOutput
                          \<or> po_FundType out = SpecifierMinerFee)
               (Outputs (fst (snd (buildTransaction E block w txn)))))\<rparr>"
    by (simp add: buildTransaction_eq buildUnconfirmed_eq filter_map o_def
        siacoinInputEntry_def siafundInputEntry_def siacoinOutputEntry_def
        claimOutputEntry_def siafundOutputEntry_def minerFeeEntry_def)
next
  show "fst (buildUnconfirmed E w txn) =
       ((\<exists>inp \<in> set (Inputs (fst (snd (buildUnconfirmed E w txn)))). pi_WalletAddress inp)
        \<or> (\<exists>out \<in> set (Outputs (fst (snd (buildUnconfirmed E w txn)))). po_WalletAddress out))"
    by (simp add: buildUnconfirmed_eq relevantSiacoin_def siacoinInputEntry_def
        siacoinOutputEntry_def minerFeeEntry_def bex_Un)
next
  show "unconfirmedProcessedTransactions (receiveTransaction E w txn) =
       unconfirmedProcessedTransactions w @
         (if fst (buildUnconfirmed E w txn) then [fst (snd (buildUnconfirmed E w txn))] else [])"
    by (simp add: receiveTransaction_def buildUnconfirmed_eq)
qed

theorem unconfirmed_entry_witness:
  "fst (snd (buildUnconfirmed env_debug wallet_new txn_foreign)) =
     \<lparr>pt_Transaction = txn_foreign, TransactionID = 13,
      ConfirmationHeight = MaxUint64, ConfirmationTimestamp = MaxUint64,
      Inputs = [\<lparr>pi_FundType = SpecifierSiacoinInput, pi_WalletAddress = False,
                 pi_RelatedAddress = 9, pi_Value = 0\<rparr>],
      Outputs = [\<lparr>po_FundType = SpecifierSiacoinOutput, po_MaturityHeight = MaxUint64,
                  po_WalletAddress = False, po_RelatedAddress = 9, po_Value = 100\<rparr>]\<rparr>
   \<and> \<not> fst (buildUnconfirmed env_debug wallet_new txn_foreign)"
  using unconfirmed_entry [of env_debug wallet_new txn_foreign block_one]
  by (simp add: buildTransaction_eq env_debug_def wallet_new_def txn_foreign_def
      zeroTransaction_def siacoinInputEntry_def siacoinOutputEntry_def currencyAt_def)

section \<open>Properties of the two history passes\<close>


lemma log_entries_drop_last:
  "log_entries (drop_last w) = butlast (log_entries w)"
  by (cases "s_len (processedTransactions w)")
     (simp_all add: log_entries_def drop_last_def butlast_conv_take)

lemma last_pt_log_entries:
  "s_len (processedTransactions w) > 0 \<Longrightarrow> last_pt w = last (log_entries w)"
  by (cases "s_len (processedTransactions w)") (simp_all add: log_entries_def last_pt_def)

lemma log_entries_Nil: "log_entries w = [] \<longleftrightarrow> s_len (processedTransactions w) = 0"
  by (simp add: log_entries_def)

lemma log_entries_frame:
  "log_entries (index_last w txid) = log_entries w"
  "log_entries (w\<lparr>processedTransactionMap := m\<rparr>) = log_entries w"
  "log_entries (w\<lparr>consensusSetHeight := h\<rparr>) = log_entries w"
  "log_entries (w\<lparr>historicOutputs := H\<rparr>) = log_entries w"
  "log_entries (w\<lparr>historicClaimStarts := C\<rparr>) = log_entries w"
  "log_entries (w\<lparr>siacoinOutputs := a\<rparr>) = log_entries w"
  "log_entries (w\<lparr>siafundOutputs := b\<rparr>) = log_entries w"
  "log_entries (w\<lparr>siafundPool := c\<rparr>) = log_entries w"
  by (simp_all add: log_entries_def index_last_def Let_def)

lemma ledger_frame:
  "ledger (append_pt E w pt) = ledger w"
  "ledger (index_last w txid) = ledger w"
  "ledger (drop_last w) = ledger w"
  "ledger (w\<lparr>historicOutputs := H\<rparr>) = ledger w"
  "ledger (w\<lparr>historicClaimStarts := C\<rparr>) = ledger w"
  "ledger (w\<lparr>consensusSetHeight := h\<rparr>) = ledger w"
  "ledger (w\<lparr>processedTransactionMap := m\<rparr>) = ledger w"
  by (simp_all add: ledger_def append_pt_def index_last_def drop_last_def Let_def)


lemma revertTransaction_log:
  "log_entries (revertTransaction E w txn) = unwind [Transaction_ID E txn] (log_entries w)"
proof (cases "s_len (processedTransactions w) > 0")
  case True
  then show ?thesis
    by (simp add: revertTransaction_def Let_def log_entries_Nil last_pt_log_entries
        log_entries_drop_last log_entries_frame)
next
  case False
  then show ?thesis by (simp add: revertTransaction_def Let_def log_entries_Nil)
qed

lemma revertTransaction_frame:
  "ledger (revertTransaction E w txn) = ledger w
   \<and> consensusSetHeight (revertTransaction E w txn) = consensusSetHeight w"
  by (simp add: revertTransaction_def Let_def ledger_def drop_last_def)

lemma foldl_revertTransaction_log:
  "log_entries (foldl (revertTransaction E) w txns) =
     unwind (map (Transaction_ID E) txns) (log_entries w)"
proof (induction txns arbitrary: w)
  case Nil
  then show ?case by simp
next
  case (Cons txn txns)
  show ?case using Cons.IH [of "revertTransaction E w txn"] revertTransaction_log [of E w txn]
    by simp
qed

lemma foldl_revertTransaction_frame:
  "ledger (foldl (revertTransaction E) w txns) = ledger w
   \<and> consensusSetHeight (foldl (revertTransaction E) w txns) = consensusSetHeight w"
  by (induction txns arbitrary: w) (simp_all add: revertTransaction_frame)

lemma revertMinerPayouts_eq:
  "revertMinerPayouts E block w mps =
     (if \<exists>mp \<in> set mps. sco_UnlockHash mp \<in> keys w then
        (if s_len (processedTransactions w) = 0 then Inl SliceBoundsOutOfRange
         else Inr ((drop_last w)\<lparr>processedTransactionMap :=
                                    (processedTransactionMap w)(Block_ID E block := None)\<rparr>))
      else Inr w)"
  by (induction mps) auto

lemma revertBlock_eq:
  "revertBlock E w block =
     (let w1 = foldl (revertTransaction E) w (rev (Transactions block)) in
      if relevantPayouts (keys w) block then
        (if log_entries w1 = [] then Inl SliceBoundsOutOfRange
         else Inr ((drop_last w1)\<lparr>processedTransactionMap :=
                                     (processedTransactionMap w1)(Block_ID E block := None),
                                   consensusSetHeight := consensusSetHeight w - 1\<rparr>))
      else Inr (w1\<lparr>consensusSetHeight := consensusSetHeight w - 1\<rparr>))"
proof -
  let ?w1 = "foldl (revertTransaction E) w (rev (Transactions block))"
  have k: "keys ?w1 = keys w" and h: "consensusSetHeight ?w1 = consensusSetHeight w"
    using foldl_revertTransaction_frame [of E w "rev (Transactions block)"]
    by (simp_all add: ledger_def)
  show ?thesis
    by (simp add: revertBlock_def revertMinerPayouts_eq relevantPayouts_def k h log_entries_Nil
        drop_last_def Let_def)
qed

























lemma foldl_siafundPoolDiff_eq:
  "foldl siafundPoolDiff w ds = w\<lparr>siafundPool := poolApplied (siafundPool w) ds\<rparr>"
proof (induction ds arbitrary: w)
  case Nil
  then show ?case by simp
next
  case (Cons d ds)
  have "siafundPoolDiff w d =
          w\<lparr>siafundPool := (if spd_Direction d = DiffApply then Adjusted d else Previous d)\<rparr>"
    by (simp add: siafundPoolDiff_def)
  then show ?case by (simp add: Cons.IH)
qed








lemma revertBlock_view:
  assumes "\<not> (relevantPayouts (keys w) block
              \<and> unwind (rev (map (Transaction_ID E) (Transactions block))) (log_entries w) = [])"
  shows "\<exists>w'. revertBlock E w block = Inr w'
           \<and> ledger w' = ledger w
           \<and> consensusSetHeight w' = consensusSetHeight w - 1
           \<and> log_entries w' =
               (if relevantPayouts (keys w) block
                then butlast (unwind (rev (map (Transaction_ID E) (Transactions block)))
                                (log_entries w))
                else unwind (rev (map (Transaction_ID E) (Transactions block))) (log_entries w))"
proof -
  let ?w1 = "foldl (revertTransaction E) w (rev (Transactions block))"
  have l: "log_entries ?w1 =
             unwind (rev (map (Transaction_ID E) (Transactions block))) (log_entries w)"
    by (simp add: foldl_revertTransaction_log rev_map)
  have f: "ledger ?w1 = ledger w"
    using foldl_revertTransaction_frame [of E w "rev (Transactions block)"] by simp
  show ?thesis
    using assms l f
    by (auto simp: revertBlock_eq Let_def log_entries_drop_last log_entries_frame ledger_frame)
qed



section \<open>Properties of the index\<close>

lemma index_valid_logState: "logState w' = logState w \<Longrightarrow> index_valid w' = index_valid w"
  by (simp add: logState_def index_valid_def)

lemma log_entries_logState: "logState w' = logState w \<Longrightarrow> log_entries w' = log_entries w"
  by (simp add: logState_def log_entries_def)

lemma index_valid_empty: "processedTransactionMap w = Map.empty \<Longrightarrow> index_valid w"
  by (simp add: index_valid_def)

lemma index_validD:
  "index_valid w \<Longrightarrow> processedTransactionMap w txid = Some (a, i) \<Longrightarrow>
     i < s_len (processedTransactions w)
   \<and> arrays w a i = arrays w (s_array (processedTransactions w)) i
   \<and> TransactionID (arrays w a i) = txid"
  unfolding index_valid_def by blast

lemma index_valid_append:
  assumes "index_valid w"
  shows "index_valid (index_last (append_pt E w pt) (TransactionID pt))"
proof (cases "s_len (processedTransactions w) < s_cap (processedTransactions w)")
  case True
  show ?thesis
    unfolding index_valid_def
  proof (intro allI impI)
    fix txid a i
    assume p: "processedTransactionMap (index_last (append_pt E w pt) (TransactionID pt)) txid
                 = Some (a, i)"
    show "i < s_len (processedTransactions (index_last (append_pt E w pt) (TransactionID pt)))
        \<and> arrays (index_last (append_pt E w pt) (TransactionID pt)) a i =
          arrays (index_last (append_pt E w pt) (TransactionID pt))
            (s_array (processedTransactions (index_last (append_pt E w pt) (TransactionID pt)))) i
        \<and> TransactionID (arrays (index_last (append_pt E w pt) (TransactionID pt)) a i) = txid"
    proof (cases "txid = TransactionID pt")
      case T: True
      then show ?thesis using p True by (simp add: index_last_def append_pt_def Let_def)
    next
      case False
      then have old: "processedTransactionMap w txid = Some (a, i)"
        using p True by (simp add: index_last_def append_pt_def Let_def)
      then have "i < s_len (processedTransactions w)"
        and "arrays w a i = arrays w (s_array (processedTransactions w)) i"
        and "TransactionID (arrays w a i) = txid"
        using index_validD [OF assms old] by blast+
      then show ?thesis using True by (simp add: index_last_def append_pt_def Let_def)
    qed
  qed
next
  case False
  show ?thesis
    unfolding index_valid_def
  proof (intro allI impI)
    fix txid a i
    assume p: "processedTransactionMap (index_last (append_pt E w pt) (TransactionID pt)) txid
                 = Some (a, i)"
    show "i < s_len (processedTransactions (index_last (append_pt E w pt) (TransactionID pt)))
        \<and> arrays (index_last (append_pt E w pt) (TransactionID pt)) a i =
          arrays (index_last (append_pt E w pt) (TransactionID pt))
            (s_array (processedTransactions (index_last (append_pt E w pt) (TransactionID pt)))) i
        \<and> TransactionID (arrays (index_last (append_pt E w pt) (TransactionID pt)) a i) = txid"
    proof (cases "txid = TransactionID pt")
      case T: True
      then show ?thesis using p False by (simp add: index_last_def append_pt_def Let_def)
    next
      case F: False
      then have old: "processedTransactionMap w txid = Some (a, i)"
        using p False by (simp add: index_last_def append_pt_def Let_def)
      then have "i < s_len (processedTransactions w)"
        and "arrays w a i = arrays w (s_array (processedTransactions w)) i"
        and "TransactionID (arrays w a i) = txid"
        using index_validD [OF assms old] by blast+
      then show ?thesis using False by (simp add: index_last_def append_pt_def Let_def)
    qed
  qed
qed

lemma index_valid_pop:
  assumes "index_valid w" and "s_len (processedTransactions w) > 0"
    and "txid = TransactionID (last_pt w)"
  shows "index_valid ((drop_last w)\<lparr>processedTransactionMap :=
                                      (processedTransactionMap w)(txid := None)\<rparr>)"
  unfolding index_valid_def
proof (intro allI impI)
  fix t a i
  let ?w' = "(drop_last w)\<lparr>processedTransactionMap := (processedTransactionMap w)(txid := None)\<rparr>"
  assume p: "processedTransactionMap ?w' t = Some (a, i)"
  then have ne: "t \<noteq> txid" and old: "processedTransactionMap w t = Some (a, i)"
    by (auto simp: drop_last_def split: if_splits)
  have v: "i < s_len (processedTransactions w)"
    "arrays w a i = arrays w (s_array (processedTransactions w)) i"
    "TransactionID (arrays w a i) = t"
    using index_validD [OF assms(1) old] by blast+
  have "i \<noteq> s_len (processedTransactions w) - 1"
  proof
    assume "i = s_len (processedTransactions w) - 1"
    then have "arrays w a i = last_pt w" using v(2) by (simp add: last_pt_def)
    then show False using v(3) assms(3) ne by simp
  qed
  then have "i < s_len (processedTransactions w) - 1" using v(1) by arith
  then show "i < s_len (processedTransactions ?w')
        \<and> arrays ?w' a i = arrays ?w' (s_array (processedTransactions ?w')) i
        \<and> TransactionID (arrays ?w' a i) = t"
    using v by (simp add: drop_last_def)
qed

text \<open>
  C5 fails as stated. From the empty wallet, one consensus change that applies a block with
  an owned miner payout and an owned transaction appends two entries. The second append
  finds the backing array full and moves the log to a new array (address 2); the pointer
  indexed under the block's identifier still refers to slot 0 of the old array (address 1).
\<close>
theorem index_points_to_old_array:
  "\<not> isl (ProcessConsensusChange env_debug wallet_new cc_round)
   \<and> processedTransactionMap (projr (ProcessConsensusChange env_debug wallet_new cc_round)) 2
       = Some (1, 0)
   \<and> processedTransactions (projr (ProcessConsensusChange env_debug wallet_new cc_round))
       = \<lparr>s_array = 2, s_len = 2, s_cap = 2\<rparr>
   \<and> \<not> index_live (projr (ProcessConsensusChange env_debug wallet_new cc_round))"
proof -
  have 1: "\<not> isl (ProcessConsensusChange env_debug wallet_new cc_round)
   \<and> processedTransactionMap (projr (ProcessConsensusChange env_debug wallet_new cc_round)) 2
       = Some (1, 0)
   \<and> processedTransactions (projr (ProcessConsensusChange env_debug wallet_new cc_round))
       = \<lparr>s_array = 2, s_len = 2, s_cap = 2\<rparr>"
    by (simp add: ProcessConsensusChange_def tg_Add_def updateConfirmedSet_def
      siacoinOutputDiff_def siafundPoolDiff_def revertHistory_def applyHistory_def
      applyBlock_def applyTransaction_def buildMinerPayouts_eq buildTransaction_eq
      commit_def append_pt_def index_last_def relevantPayouts_def relevantTransaction_def
      cc_round_def cc_none_def block_round_def txn_own_def txn_foreign_def zeroTransaction_def
      wallet_new_def env_debug_def Let_def)
  then have "\<not> index_live (projr (ProcessConsensusChange env_debug wallet_new cc_round))"
    unfolding index_live_def by (metis Suc_1 n_not_Suc_n slice.select_convs(1))
  then show ?thesis using 1 by blast
qed

lemma logState_frame:
  "logState (w\<lparr>historicOutputs := H\<rparr>) = logState w"
  "logState (w\<lparr>historicClaimStarts := C\<rparr>) = logState w"
  "logState (w\<lparr>consensusSetHeight := h\<rparr>) = logState w"
  "logState (w\<lparr>siacoinOutputs := a\<rparr>) = logState w"
  "logState (w\<lparr>siafundOutputs := b\<rparr>) = logState w"
  "logState (w\<lparr>siafundPool := c\<rparr>) = logState w"
  "logState (w\<lparr>unconfirmedProcessedTransactions := u\<rparr>) = logState w"
  by (simp_all add: logState_def)

lemma index_valid_commit:
  "index_valid w \<Longrightarrow> logState w' = logState w \<Longrightarrow> TransactionID pt = txid \<Longrightarrow>
     index_valid (commit E (r, pt, w'))"
  using index_valid_append [of w' E pt] index_valid_logState [of w' w]
  by (simp add: commit_def)

lemma index_valid_applyTransaction:
  "index_valid w \<Longrightarrow> index_valid (applyTransaction E block w txn)"
  unfolding applyTransaction_def
  by (subst buildTransaction_eq) (rule index_valid_commit, simp_all add: logState_frame)

lemma index_valid_foldl_applyTransaction:
  "index_valid w \<Longrightarrow> index_valid (foldl (applyTransaction E block) w txns)"
  by (induction txns arbitrary: w) (simp_all add: index_valid_applyTransaction)

lemma index_valid_applyBlock: "index_valid w \<Longrightarrow> index_valid (applyBlock E w block)"
proof -
  assume v: "index_valid w"
  let ?w1 = "w\<lparr>consensusSetHeight := consensusSetHeight w + 1\<rparr>"
  have "index_valid (commit E (buildMinerPayouts E ?w1 block))"
    by (subst buildMinerPayouts_eq) (rule index_valid_commit [OF v], simp_all add: logState_frame)
  then show ?thesis
    by (simp add: applyBlock_def Let_def index_valid_foldl_applyTransaction)
qed

lemma index_valid_applyHistory: "index_valid w \<Longrightarrow> index_valid (applyHistory E w cc)"
proof -
  have "index_valid w \<Longrightarrow> index_valid (foldl (applyBlock E) w bs)" for bs w
    by (induction bs arbitrary: w) (simp_all add: index_valid_applyBlock)
  then show "index_valid w \<Longrightarrow> index_valid (applyHistory E w cc)"
    by (simp add: applyHistory_def)
qed

lemma index_valid_revertTransaction:
  "index_valid w \<Longrightarrow> index_valid (revertTransaction E w txn)"
  by (simp add: revertTransaction_def Let_def index_valid_pop)

lemma index_valid_foldl_revertTransaction:
  "index_valid w \<Longrightarrow> index_valid (foldl (revertTransaction E) w txns)"
  by (induction txns arbitrary: w) (simp_all add: index_valid_revertTransaction)

lemma index_valid_revertBlock:
  assumes "index_valid w" and "revertBlock E w block = Inr w'"
    and "relevantPayouts (keys w) block \<longrightarrow>
           TransactionID (last (unwind (rev (map (Transaction_ID E) (Transactions block)))
                                  (log_entries w))) = Block_ID E block"
  shows "index_valid w'"
proof -
  let ?w1 = "foldl (revertTransaction E) w (rev (Transactions block))"
  have v1: "index_valid ?w1" using assms(1) by (rule index_valid_foldl_revertTransaction)
  have l: "log_entries ?w1 =
             unwind (rev (map (Transaction_ID E) (Transactions block))) (log_entries w)"
    by (simp add: foldl_revertTransaction_log rev_map)
  show ?thesis
  proof (cases "relevantPayouts (keys w) block")
    case False
    then have "w' = ?w1\<lparr>consensusSetHeight := consensusSetHeight w - 1\<rparr>"
      using assms(2) by (simp add: revertBlock_eq Let_def)
    then show ?thesis using v1 index_valid_logState [of w' ?w1] by (simp add: logState_frame)
  next
    case True
    then have ne: "log_entries ?w1 \<noteq> []"
      and w': "w' = ((drop_last ?w1)\<lparr>processedTransactionMap :=
                        (processedTransactionMap ?w1)(Block_ID E block := None)\<rparr>)
                    \<lparr>consensusSetHeight := consensusSetHeight w - 1\<rparr>"
      using assms(2) by (auto simp: revertBlock_eq Let_def split: if_splits)
    have n: "s_len (processedTransactions ?w1) > 0" using ne by (simp add: log_entries_Nil)
    have t: "Block_ID E block = TransactionID (last_pt ?w1)"
      using assms(3) True l n by (simp add: last_pt_log_entries)
    have "index_valid ((drop_last ?w1)\<lparr>processedTransactionMap :=
                        (processedTransactionMap ?w1)(Block_ID E block := None)\<rparr>)"
      using v1 n t by (rule index_valid_pop)
    then show ?thesis
      using index_valid_logState
        [of w' "(drop_last ?w1)\<lparr>processedTransactionMap :=
                        (processedTransactionMap ?w1)(Block_ID E block := None)\<rparr>"]
      by (simp add: w' logState_frame)
  qed
qed

lemma index_valid_forEach_revertBlock:
  "index_valid w \<Longrightarrow> popsOwnEntries E (keys w) (log_entries w) blocks \<Longrightarrow>
     forEach (revertBlock E) w blocks = Inr w' \<Longrightarrow> index_valid w'"
proof (induction blocks arbitrary: w)
  case Nil
  then show ?case by simp
next
  case (Cons b bs)
  let ?U = "unwind (rev (map (Transaction_ID E) (Transactions b))) (log_entries w)"
  obtain w1 where 1: "revertBlock E w b = Inr w1" and 2: "forEach (revertBlock E) w1 bs = Inr w'"
    using Cons.prems(3) by (auto split: sum.splits)
  have t: "relevantPayouts (keys w) b \<longrightarrow> TransactionID (last ?U) = Block_ID E b"
    and ne: "\<not> (relevantPayouts (keys w) b \<and> ?U = [])"
    using Cons.prems(2) by (auto simp: Let_def split: if_splits)
  have v1: "index_valid w1" using Cons.prems(1) 1 t by (rule index_valid_revertBlock)
  have k1: "keys w1 = keys w"
    and l1: "log_entries w1 = (if relevantPayouts (keys w) b then butlast ?U else ?U)"
    using revertBlock_view [OF ne] 1 by (auto simp: ledger_def)
  have "popsOwnEntries E (keys w1) (log_entries w1) bs"
    using Cons.prems(2) unfolding k1 l1 by (auto simp: Let_def split: if_splits)
  then show ?case using Cons.IH [OF v1 _ 2] by simp
qed

lemma siacoinOutputDiff_logState:
  "siacoinOutputDiff E w d = Inr w' \<Longrightarrow> logState w' = logState w"
  by (auto simp: siacoinOutputDiff_def Let_def logState_frame split: if_splits)

lemma siafundOutputDiff_logState:
  "siafundOutputDiff E w d = Inr w' \<Longrightarrow> logState w' = logState w"
  by (auto simp: siafundOutputDiff_def Let_def logState_frame split: if_splits)

lemma forEach_siacoinOutputDiff_logState:
  "forEach (siacoinOutputDiff E) w ds = Inr w' \<Longrightarrow> logState w' = logState w"
  by (induction ds arbitrary: w) (auto split: sum.splits dest: siacoinOutputDiff_logState)

lemma forEach_siafundOutputDiff_logState:
  "forEach (siafundOutputDiff E) w ds = Inr w' \<Longrightarrow> logState w' = logState w"
  by (induction ds arbitrary: w) (auto split: sum.splits dest: siafundOutputDiff_logState)

lemma updateConfirmedSet_logState:
  assumes "updateConfirmedSet E w cc = Inr w'"
  shows "logState w' = logState w \<and> keys w' = keys w"
proof -
  obtain w1 w2 where 1: "forEach (siacoinOutputDiff E) w (SiacoinOutputDiffs cc) = Inr w1"
    and 2: "forEach (siafundOutputDiff E) w1 (SiafundOutputDiffs cc) = Inr w2"
    and 3: "w' = foldl siafundPoolDiff w2 (SiafundPoolDiffs cc)"
    using assms by (auto simp: updateConfirmedSet_def split: sum.splits)
  have "logState w2 = logState w"
    using forEach_siacoinOutputDiff_logState [OF 1] forEach_siafundOutputDiff_logState [OF 2]
    by simp
  moreover have "keys w2 = keys w"
    using forEach_siacoinOutputDiff_keys [OF 1] forEach_siafundOutputDiff_keys [OF 2] by simp
  ultimately show ?thesis by (simp add: 3 foldl_siafundPoolDiff_eq logState_frame)
qed

lemma index_valid_ProcessConsensusChange:
  assumes "index_valid w"
    and "popsOwnEntries E (keys w) (log_entries w) (RevertedBlocks cc)"
    and "ProcessConsensusChange E w cc = Inr w'"
  shows "index_valid w'"
proof (cases "tg_stopped w")
  case True
  then show ?thesis using assms by (simp add: ProcessConsensusChange_def tg_Add_def)
next
  case False
  then obtain w1 w2 where 1: "updateConfirmedSet E w cc = Inr w1"
    and 2: "revertHistory E w1 cc = Inr w2" and 3: "w' = applyHistory E w2 cc"
    using assms(3) by (auto simp: ProcessConsensusChange_def tg_Add_def split: sum.splits)
  have f: "logState w1 = logState w" and k: "keys w1 = keys w"
    using updateConfirmedSet_logState [OF 1] by simp_all
  have v1: "index_valid w1" using assms(1) index_valid_logState [OF f] by simp
  have "popsOwnEntries E (keys w1) (log_entries w1) (RevertedBlocks cc)"
    using assms(2) k log_entries_logState [OF f] by simp
  then have "index_valid w2"
    using v1 2 index_valid_forEach_revertBlock by (simp add: revertHistory_def)
  then show ?thesis unfolding 3 by (rule index_valid_applyHistory)
qed

lemma receiveTransaction_logState:
  "logState (receiveTransaction E w txn) = logState w"
  by (simp add: receiveTransaction_def buildUnconfirmed_eq logState_frame)

lemma ReceiveUpdatedUnconfirmedTransactions_logState:
  "logState (ReceiveUpdatedUnconfirmedTransactions E w txns) = logState w"
proof -
  have "logState (foldl (receiveTransaction E) w0 txns) = logState w0" for w0
    by (induction txns arbitrary: w0) (simp_all add: receiveTransaction_logState)
  then show ?thesis by (simp add: ReceiveUpdatedUnconfirmedTransactions_def logState_frame)
qed

lemma run_round:
  "ProcessConsensusChange env_debug wallet_new cc_round = Inr w1 \<Longrightarrow>
     keys w1 = {7}
   \<and> log_entries w1 =
       [\<lparr>pt_Transaction = zeroTransaction, TransactionID = 2, ConfirmationHeight = 1,
         ConfirmationTimestamp = 2000, Inputs = [],
         Outputs = [\<lparr>po_FundType = SpecifierMinerPayout, po_MaturityHeight = 145,
                     po_WalletAddress = True, po_RelatedAddress = 7, po_Value = 50\<rparr>]\<rparr>,
        pt_own]
   \<and> \<not> tg_stopped w1"
  by (auto simp add: ProcessConsensusChange_def tg_Add_def updateConfirmedSet_def
      siacoinOutputDiff_def siafundPoolDiff_def revertHistory_def applyHistory_def
      applyBlock_def applyTransaction_def buildMinerPayouts_eq buildTransaction_eq
      commit_def append_pt_def index_last_def relevantPayouts_def relevantTransaction_def
      cc_round_def cc_none_def block_round_def txn_own_def txn_foreign_def zeroTransaction_def
      wallet_new_def env_debug_def Let_def log_entries_def pt_own_def minerPayoutEntry_def
      siacoinOutputEntry_def minerFeeEntry_def upt_rec)

lemma run_round_trip:
  "\<exists>w'. forEach (ProcessConsensusChange env_debug) wallet_new [cc_round, reverting cc_round]
          = Inr w'"
  by (simp add: ProcessConsensusChange_def tg_Add_def updateConfirmedSet_def
      siacoinOutputDiff_def siafundPoolDiff_def revertHistory_def applyHistory_def
      revertBlock_def revertTransaction_def drop_last_def last_pt_def reverting_def
      applyBlock_def applyTransaction_def buildMinerPayouts_eq buildTransaction_eq
      commit_def append_pt_def index_last_def relevantPayouts_def relevantTransaction_def
      cc_round_def cc_none_def block_round_def txn_own_def txn_foreign_def zeroTransaction_def
      wallet_new_def env_debug_def Let_def)

text \<open>
  C5, as the code has it. Let every pointer in the index refer to a slot number below the
  log's length and to an entry that bears the pointer's identifier and equals the log's
  entry in that slot (an index without pointers does). Process any list of consensus
  changes in which every pop for an owned miner payout finds the block's own entry at the
  tail of the log. If no call panics, the property holds again at the end, and a rebuild of
  the unconfirmed view keeps it.
\<close>

theorem index_agrees_with_log:
  assumes "index_valid w"
    and "revertsOwnEntries E w ccs"
    and "forEach (ProcessConsensusChange E) w ccs = Inr w'"
  shows "index_valid w' \<and> index_valid (ReceiveUpdatedUnconfirmedTransactions E w' txns)"
proof -
  have "index_valid w'" using assms
  proof (induction ccs arbitrary: w)
    case Nil
    then show ?case by simp
  next
    case (Cons cc ccs)
    obtain w1 where 1: "ProcessConsensusChange E w cc = Inr w1"
      and 2: "forEach (ProcessConsensusChange E) w1 ccs = Inr w'"
      using Cons.prems(3) by (auto split: sum.splits)
    have p: "popsOwnEntries E (keys w) (log_entries w) (RevertedBlocks cc)"
      and r: "revertsOwnEntries E w1 ccs"
      using Cons.prems(2) 1 by simp_all
    have "index_valid w1"
      using Cons.prems(1) p 1 by (rule index_valid_ProcessConsensusChange)
    then show ?case using r 2 by (rule Cons.IH)
  qed
  then show ?thesis
    using index_valid_logState [OF ReceiveUpdatedUnconfirmedTransactions_logState] by simp
qed

theorem index_agrees_with_log_witness:
  "\<exists>w'. forEach (ProcessConsensusChange env_debug) wallet_new [cc_round, reverting cc_round]
          = Inr w'
      \<and> index_valid w'"
proof -
  obtain w' where r: "forEach (ProcessConsensusChange env_debug) wallet_new
                        [cc_round, reverting cc_round] = Inr w'"
    using run_round_trip by blast
  then obtain w1 where 1: "ProcessConsensusChange env_debug wallet_new cc_round = Inr w1"
    by (auto split: sum.splits)
  have v: "index_valid wallet_new"
    by (rule index_valid_empty) (simp add: wallet_new_def)
  have b: "RevertedBlocks cc_round = []" "RevertedBlocks (reverting cc_round) = [block_round]"
    by (simp_all add: reverting_def cc_round_def cc_none_def)
  have p: "popsOwnEntries env_debug (keys w1) (log_entries w1) [block_round]"
    using run_round [OF 1]
    by (simp add: relevantPayouts_def block_round_def env_debug_def txn_own_def
        txn_foreign_def pt_own_def Let_def)
  have "revertsOwnEntries env_debug wallet_new [cc_round, reverting cc_round]"
    using 1 p b by (simp split: sum.splits)
  from index_agrees_with_log [OF v this r] r show ?thesis by blast
qed

end
